theory Spec2Isabelle
  imports Main
begin

section \<open>JavaScript values as the code reads them\<close>

text \<open>
  The sources are TypeScript. A property that may be absent, \<open>undefined\<close> or \<open>null\<close> is an
  \<open>option\<close> here (the three are never told apart by the code on these fields, which only
  tests truthiness, \<open>isDefined\<close> or \<open>??\<close>). A thrown \<open>Error(msg)\<close> is \<open>Inl (Error msg)\<close>; a rejected
  store call is \<open>Inl (PrismaError code)\<close>; a failed outbound HTTP call is \<open>Inl FetchError\<close>.
\<close>

datatype error =
    Error string
  | PrismaError string
  | FetchError
  | SyntaxError

text \<open>Truthiness of a string-valued property: absent, \<open>null\<close> and \<open>""\<close> are falsy.\<close>

definition truthy :: "string option \<Rightarrow> bool" where
  "truthy s = (case s of None \<Rightarrow> False | Some v \<Rightarrow> v \<noteq> [])"

text \<open>\<open>isDefined\<close> of the utilities: neither \<open>undefined\<close> nor \<open>null\<close>.\<close>

definition isDefined :: "'a option \<Rightarrow> bool" where
  "isDefined v = (v \<noteq> None)"

text \<open>\<open>String.prototype.split\<close> with a one-character separator: \<open>"".split(c)\<close> is \<open>[""]\<close>.\<close>

fun split :: "char \<Rightarrow> string \<Rightarrow> string list" where
  "split c [] = [[]]"
| "split c (x # xs) =
     (if x = c then [] # split c xs
      else (case split c xs of
              [] \<Rightarrow> [[x]]
            | y # ys \<Rightarrow> (x # y) # ys))"

text \<open>Array indexing: an index past the end reads \<open>undefined\<close>.\<close>

definition at_index :: "'a list \<Rightarrow> nat \<Rightarrow> 'a option" where
  "at_index xs i = (if i < length xs then Some (xs ! i) else None)"

text \<open>\<open>Array.prototype.includes\<close> on an array of strings; \<open>undefined\<close> is never an element.\<close>

definition array_includes :: "string list \<Rightarrow> string option \<Rightarrow> bool" where
  "array_includes xs v = (case v of None \<Rightarrow> False | Some s \<Rightarrow> s \<in> set xs)"

section \<open>Configuration and telemetry\<close>

text \<open>
  The fields of \<open>env\<close> the two files read. \<open>ADMIN_EMAIL\<close> and \<open>GITLAB_REQUIRED_GROUPS\<close> are
  optional lists: the code guards both with \<open>?.\<close>, \<open>??\<close> or \<open>!env.ADMIN_EMAIL\<close>.
\<close>

record env =
  DISABLE_SIGNUP :: bool
  ADMIN_EMAIL :: "string list option"
  REJECT_DISPOSABLE_EMAILS :: bool
  GITLAB_REQUIRED_GROUPS :: "string list option"
  USER_CREATED_WEBHOOK_URL :: "string option"
  REDIS_URL :: "string option"
  NEXT_PUBLIC_E2E_TEST :: bool

text \<open>The telemetry events the files hand to \<open>trackEvents\<close>, with their identifiers.\<close>

datatype TelemetryEvent =
    Workspace_created string string
  | User_created string
  | User_logged_in string
  | User_logged_out string
  | User_updated string

section \<open>The store\<close>

datatype WorkspaceRole = ADMIN | MEMBER | GUEST

record user_row =
  u_id :: string
  u_email :: string
  u_name :: "string option"
  u_image :: "string option"
  u_emailVerified :: "nat option"
  u_onboardingCategories :: "string list"

record apiToken_row =
  t_name :: string
  t_token :: string
  t_ownerId :: string

record workspace_row =
  w_id :: string
  w_name :: string
  w_plan :: string

record member_row =
  m_userId :: string
  m_workspaceId :: string
  m_role :: WorkspaceRole

record invitation =
  i_email :: string
  i_typebotId :: string
  i_type :: string

record workspaceInvitation =
  wi_email :: string
  wi_workspaceId :: string
  wi_type :: WorkspaceRole

record collaborator_row =
  c_userId :: string
  c_typebotId :: string
  c_type :: string

record VerificationToken =
  vt_identifier :: string
  vt_token :: string
  vt_expires :: nat

text \<open>
  The tables of the relational store the adapter touches. Verification tokens have the
  composite primary key \<open>(identifier, token)\<close>, so that table is a map from the key.
\<close>

record prisma =
  p_users :: "user_row list"
  p_apiTokens :: "apiToken_row list"
  p_workspaces :: "workspace_row list"
  p_members :: "member_row list"
  p_invitations :: "invitation list"
  p_workspaceInvitations :: "workspaceInvitation list"
  p_collaborators :: "collaborator_row list"
  p_verificationTokens :: "string \<times> string \<rightharpoonup> VerificationToken"

text \<open>
  Modelled from the spec: \<open>getNewUserInvitations\<close> (features/auth/helpers) is not among the
  sources. The spec describes it as a pure lookup that, given an email, returns the pending
  direct invitations and the pending workspace invitations for it.
\<close>

definition getNewUserInvitations :: "prisma \<Rightarrow> string \<Rightarrow> invitation list \<times> workspaceInvitation list" where
  "getNewUserInvitations p email =
     (filter (\<lambda>i. i_email i = email) (p_invitations p),
      filter (\<lambda>i. wi_email i = email) (p_workspaceInvitations p))"

section \<open>The sign-in decision procedure\<close>

record Account =
  provider :: string
  access_token :: "string option"

text \<open>The user payload of the sign-in callback: \<open>createdAt\<close> is the prior-creation marker.\<close>

record signin_user =
  su_id :: string
  su_email :: "string option"
  su_createdAt :: "nat option"

text \<open>
  One page of the group-listing endpoint: the groups of the JSON body and
  \<open>Number.parseInt\<close> of the \<open>X-Next-Page\<close> header (\<open>None\<close> is \<open>NaN\<close>).
\<close>

record gitlab_group =
  full_path :: string

record gitlab_response =
  resp_groups :: "gitlab_group list"
  resp_next_page :: "int option"

text \<open>
  What the outside world answers during one sign-in: the text of the disposable-domain
  list (\<open>None\<close> when the request fails) and the group-listing endpoint, by access token and
  page (\<open>None\<close> when the request fails).
\<close>

record world =
  disposable_blocklist :: "string option"
  gitlab_api :: "string option \<Rightarrow> int \<Rightarrow> gitlab_response option"

text \<open>
  \<open>getGitlabGroups\<close> follows the next-page header for as long as it is a non-zero number, so
  it returns only if the endpoint stops naming a next page: \<open>None\<close> is the call that never
  returns.
\<close>

partial_function (option) getGitlabGroups ::
  "(int \<Rightarrow> gitlab_response option) \<Rightarrow> int \<Rightarrow> (error + gitlab_group list) option" where
  "getGitlabGroups api page =
     (case api page of
        None \<Rightarrow> Some (Inl FetchError)
      | Some res \<Rightarrow>
          (case resp_next_page res of
             None \<Rightarrow> Some (Inr (resp_groups res))
           | Some nextPage \<Rightarrow>
               if nextPage = 0 then Some (Inr (resp_groups res))
               else Option.bind (getGitlabGroups api nextPage)
                      (\<lambda>r. case r of
                             Inl e \<Rightarrow> Some (Inl e)
                           | Inr rest \<Rightarrow> Some (Inr (resp_groups res @ rest)))))"

definition getUserGroups :: "world \<Rightarrow> Account \<Rightarrow> (error + string list) option" where
  "getUserGroups w account =
     (if provider account = ''gitlab'' then
        Option.bind (getGitlabGroups (gitlab_api w (access_token account)) 1)
          (\<lambda>r. case r of
                 Inl e \<Rightarrow> Some (Inl e)
               | Inr groups \<Rightarrow> Some (Inr (map full_path groups)))
      else Some (Inr []))"

definition getRequiredGroups :: "env \<Rightarrow> string \<Rightarrow> string list" where
  "getRequiredGroups e prov =
     (if prov = ''gitlab'' then
        (case GITLAB_REQUIRED_GROUPS e of None \<Rightarrow> [] | Some gs \<Rightarrow> gs)
      else [])"

definition checkHasGroups :: "string list \<Rightarrow> string list \<Rightarrow> bool" where
  "checkHasGroups userGroups requiredGroups =
     list_ex (\<lambda>userGroup. array_includes requiredGroups (Some userGroup)) userGroups"

text \<open>
  The first guarded block of \<open>signIn\<close>: for a new user with an email that is not an admin's,
  when disposable emails are rejected, fetch the list and look the email's domain up.
  \<open>Inr True\<close> is the early \<open>return false\<close> of the source, \<open>Inr False\<close> falls through.
\<close>

definition disposableEmailCheck :: "env \<Rightarrow> world \<Rightarrow> bool \<Rightarrow> string option \<Rightarrow> error + bool" where
  "disposableEmailCheck e w isNewUser email =
     (if isNewUser \<and> truthy email \<and>
         (case ADMIN_EMAIL e of None \<Rightarrow> True | Some admins \<Rightarrow> \<not> array_includes admins email) \<and>
         REJECT_DISPOSABLE_EMAILS e
      then (case disposable_blocklist w of
              None \<Rightarrow> Inl FetchError
            | Some data \<Rightarrow>
                (let disposableEmailDomains = split CHR 0x0A data
                 in Inr (array_includes disposableEmailDomains
                           (at_index (split CHR ''@'' (the email)) 1))))
      else Inr False)"

text \<open>
  The second guarded block: with signup disabled, a new user whose email is not an
  admin's needs a pending invitation. \<open>True\<close> is the \<open>throw new Error("sign-up-disabled")\<close>.
\<close>

definition signupDisabledCheck :: "env \<Rightarrow> prisma \<Rightarrow> bool \<Rightarrow> string option \<Rightarrow> bool" where
  "signupDisabledCheck e p isNewUser email =
     (if DISABLE_SIGNUP e \<and> isNewUser \<and> truthy email \<and>
         (case ADMIN_EMAIL e of None \<Rightarrow> True | Some admins \<Rightarrow> \<not> array_includes admins email)
      then (case getNewUserInvitations p (the email) of
              (invitations, workspaceInvitations) \<Rightarrow>
                length invitations = 0 \<and> length workspaceInvitations = 0)
      else False)"

datatype restriction = Rate_limited

text \<open>
  The \<open>signIn\<close> callback built by \<open>getAuthOptions {restricted}\<close>. The result is what the
  callback returns or throws, with the telemetry events it tracked; \<open>None\<close> only when the
  group listing never ends.
\<close>

definition signIn ::
  "env \<Rightarrow> world \<Rightarrow> prisma \<Rightarrow> restriction option \<Rightarrow> Account option \<Rightarrow> signin_user
     \<Rightarrow> ((error + bool) \<times> TelemetryEvent list) option" where
  "signIn e w p restricted account user =
     (if restricted = Some Rate_limited then Some (Inl (Error ''rate-limited''), [])
      else case account of
        None \<Rightarrow> Some (Inr False, [])
      | Some acc \<Rightarrow>
          (let isNewUser = \<not> isDefined (su_createdAt user) in
           case disposableEmailCheck e w isNewUser (su_email user) of
             Inl err \<Rightarrow> Some (Inl err, [])
           | Inr True \<Rightarrow> Some (Inr False, [])
           | Inr False \<Rightarrow>
               if signupDisabledCheck e p isNewUser (su_email user)
               then Some (Inl (Error ''sign-up-disabled''), [])
               else
                 (let requiredGroups = getRequiredGroups e (provider acc) in
                  if length requiredGroups > 0 then
                    (case getUserGroups w acc of
                       None \<Rightarrow> None
                     | Some (Inl err) \<Rightarrow> Some (Inl err, [])
                     | Some (Inr userGroups) \<Rightarrow>
                         Some (Inr (checkHasGroups userGroups requiredGroups), []))
                  else Some (Inr True,
                             if \<not> isNewUser then [User_logged_in (su_id user)] else []))))"

section \<open>The entry handler of the authentication routes\<close>

text \<open>
  What the handler reads of a request: its method, its URL, and the address \<open>getIp(req)\<close>
  answers for it (\<open>getIp\<close> is not among the sources; its answer is taken as it is).
\<close>

record NextApiRequest =
  req_method :: "string option"
  req_url :: "string option"
  req_ip :: "string option"

text \<open>
  The rate limiter exists only when \<open>REDIS_URL\<close> is set; it is built as
  \<open>Ratelimit.slidingWindow(1, "60 s")\<close>. The sliding-window count itself is the external
  limiter's: \<open>verdict ip\<close> is the \<open>success\<close> it answers for \<open>limit(ip)\<close>.
\<close>

record Ratelimit =
  rl_tokens :: nat
  rl_window_seconds :: nat
  rl_limit :: "string \<Rightarrow> bool"

definition emailSignInRateLimiter :: "env \<Rightarrow> (string \<Rightarrow> bool) \<Rightarrow> Ratelimit option" where
  "emailSignInRateLimiter e verdict =
     (if truthy (REDIS_URL e)
      then Some \<lparr>rl_tokens = 1, rl_window_seconds = 60, rl_limit = verdict\<rparr>
      else None)"

definition startsWith :: "string \<Rightarrow> string \<Rightarrow> bool" where
  "startsWith s p = (take (length p) s = p)"

text \<open>
  What the handler does with the request: end it with a status, send the mocked session,
  or hand it to the authentication library with the options built from \<open>restricted\<close>.
\<close>

datatype auth_response =
    Status_end nat
  | Send_mocked_user
  | NextAuth "restriction option"

definition handler :: "env \<Rightarrow> (string \<Rightarrow> bool) \<Rightarrow> NextApiRequest \<Rightarrow> auth_response" where
  "handler e verdict req =
     (if req_method req = Some ''HEAD'' then Status_end 200
      else if req_method req = Some ''GET'' \<and> req_url req = Some ''/api/auth/session'' \<and>
              NEXT_PUBLIC_E2E_TEST e
      then Send_mocked_user
      else if req_method req = Some ''HEAD'' then Status_end 200
      else
        (let restricted =
           (case emailSignInRateLimiter e verdict of
              None \<Rightarrow> None
            | Some limiter \<Rightarrow>
                if (case req_url req of None \<Rightarrow> False
                    | Some url \<Rightarrow> startsWith url ''/api/auth/signin/email'') \<and>
                   req_method req = Some ''POST''
                then (if truthy (req_ip req)
                      then (if \<not> rl_limit limiter (the (req_ip req))
                            then Some Rate_limited else None)
                      else None)
                else None)
         in NextAuth restricted))"

section \<open>The store adapter\<close>

text \<open>
  The user payload \<open>createUser\<close> receives. Its type says \<open>id\<close> and \<open>email\<close> are strings, but
  the code tests both for truthiness (the credentials provider forwards a remote JSON body).
\<close>

record AdapterUser =
  au_id :: "string option"
  au_email :: "string option"
  au_name :: "string option"
  au_image :: "string option"
  au_emailVerified :: "nat option"

text \<open>
  What \<open>createUser\<close> takes from outside the store: the identifier \<open>createId()\<close> draws, the
  token \<open>generateId(24)\<close> draws, the identifier the store gives a nested workspace,
  \<open>parseWorkspaceDefaultPlan\<close> (a helper that is not among the sources, taken as it is), and
  whether the webhook call succeeds.
\<close>

record deps =
  createId :: string
  generateId :: "nat \<Rightarrow> string"
  newWorkspaceId :: string
  parseWorkspaceDefaultPlan :: "string \<Rightarrow> string"
  webhook_ok :: bool

text \<open>What \<open>createUser\<close> does outside the store.\<close>

record effects =
  fx_events :: "TelemetryEvent list"
  fx_webhook_posts :: "(string \<times> string) list"
  fx_console_errors :: "string list"

definition no_effects :: effects where
  "no_effects = \<lparr>fx_events = [], fx_webhook_posts = [], fx_console_errors = []\<rparr>"

text \<open>
  \<open>p.user.create\<close> with its nested creates: the user row, the default API token, and the
  workspace with the user's membership when \<open>workspaces\<close> is not \<open>undefined\<close>. Identifier and
  email are unique, so a second row with either is refused (code \<open>P2002\<close>). The result
  carries the included \<open>workspaces\<close> of the created user.
\<close>

definition user_create ::
  "prisma \<Rightarrow> user_row \<Rightarrow> apiToken_row \<Rightarrow> (WorkspaceRole \<times> workspace_row) option
     \<Rightarrow> error + ((user_row \<times> string list) \<times> prisma)" where
  "user_create p row tok workspaces =
     (if list_ex (\<lambda>u. u_id u = u_id row \<or> u_email u = u_email row) (p_users p)
      then Inl (PrismaError ''P2002'')
      else
        (case workspaces of
           None \<Rightarrow>
             Inr ((row, []),
                  p\<lparr>p_users := p_users p @ [row], p_apiTokens := p_apiTokens p @ [tok]\<rparr>)
         | Some (role, ws) \<Rightarrow>
             Inr ((row, [w_id ws]),
                  p\<lparr>p_users := p_users p @ [row],
                    p_apiTokens := p_apiTokens p @ [tok],
                    p_workspaces := p_workspaces p @ [ws],
                    p_members := p_members p @
                      [\<lparr>m_userId = u_id row, m_workspaceId = w_id ws, m_role = role\<rparr>]\<rparr>)))"

text \<open>
  Modelled from the spec: \<open>convertInvitationsToCollaborations\<close> (features/auth/helpers) is
  not among the sources. The spec says resolved direct invitations are converted into
  collaborations and consumed (deleted) once converted.
\<close>

definition convertInvitationsToCollaborations ::
  "prisma \<Rightarrow> string \<times> string \<Rightarrow> invitation list \<Rightarrow> prisma" where
  "convertInvitationsToCollaborations p user invitations =
     p\<lparr>p_collaborators := p_collaborators p @
          map (\<lambda>i. \<lparr>c_userId = fst user, c_typebotId = i_typebotId i, c_type = i_type i\<rparr>)
            invitations,
       p_invitations := filter (\<lambda>i. i \<notin> set invitations) (p_invitations p)\<rparr>"

text \<open>
  Modelled from the spec: \<open>joinWorkspaces\<close> (features/auth/helpers) is not among the
  sources. The spec says resolved workspace invitations are joined: each is converted into
  a membership (of the invitation's workspace, with its role) and consumed (deleted) once
  converted.
\<close>

definition joinWorkspaces ::
  "prisma \<Rightarrow> string \<times> string \<Rightarrow> workspaceInvitation list \<Rightarrow> prisma" where
  "joinWorkspaces p user workspaceInvitations =
     p\<lparr>p_members := p_members p @
          map (\<lambda>i. \<lparr>m_userId = fst user, m_workspaceId = wi_workspaceId i, m_role = wi_type i\<rparr>)
            workspaceInvitations,
       p_workspaceInvitations :=
         filter (\<lambda>i. i \<notin> set workspaceInvitations) (p_workspaceInvitations p)\<rparr>"

text \<open>
  \<open>customAdapter(p).createUser\<close>. The result is the returned user or the thrown error, the
  store afterwards, and the effects outside the store.
\<close>

definition createUser ::
  "env \<Rightarrow> deps \<Rightarrow> prisma \<Rightarrow> AdapterUser \<Rightarrow> (error + user_row) \<times> prisma \<times> effects" where
  "createUser e d p data =
     (if \<not> truthy (au_email data)
      then (Inl (Error ''Provider did not forward email but it is required''), p, no_effects)
      else
        (let user = (if truthy (au_id data) then the (au_id data) else createId d,
                     the (au_email data))
         in case getNewUserInvitations p (snd user) of
           (invitations, workspaceInvitations) \<Rightarrow>
             if DISABLE_SIGNUP e \<and>
                (case ADMIN_EMAIL e of
                   None \<Rightarrow> False
                 | Some admins \<Rightarrow> list_all (\<lambda>email. email \<noteq> snd user) admins) \<and>
                length invitations = 0 \<and> length workspaceInvitations = 0
             then (Inl (Error ''New users are forbidden''), p, no_effects)
             else
               (let newWorkspaceData =
                      \<lparr>w_id = newWorkspaceId d,
                       w_name = (if truthy (au_name data)
                                 then the (au_name data) @ CHR 0x27 # ''s workspace''
                                 else ''My workspace''),
                       w_plan = parseWorkspaceDefaultPlan d (the (au_email data))\<rparr>
                in case user_create p
                          \<lparr>u_id = fst user, u_email = the (au_email data),
                           u_name = au_name data, u_image = au_image data,
                           u_emailVerified = au_emailVerified data,
                           u_onboardingCategories = []\<rparr>
                          \<lparr>t_name = ''Default'', t_token = generateId d 24,
                           t_ownerId = fst user\<rparr>
                          (if length workspaceInvitations > 0 then None
                           else Some (ADMIN, newWorkspaceData)) of
                     Inl err \<Rightarrow> (Inl err, p, no_effects)
                   | Inr ((createdUser, workspaces), p1) \<Rightarrow>
                       (let poppedWorkspaceId = (if workspaces = [] then None
                                                 else Some (last workspaces));
                            events =
                              (if truthy poppedWorkspaceId
                               then [Workspace_created (the poppedWorkspaceId) (u_id createdUser)]
                               else []) @ [User_created (u_id createdUser)];
                            posts =
                              (if truthy (USER_CREATED_WEBHOOK_URL e)
                               then [(the (USER_CREATED_WEBHOOK_URL e), u_email createdUser)]
                               else []);
                            logs =
                              (if truthy (USER_CREATED_WEBHOOK_URL e) \<and> \<not> webhook_ok d
                               then [''Failed to call user created webhook'']
                               else []);
                            p2 = (if length invitations > 0
                                  then convertInvitationsToCollaborations p1 user invitations
                                  else p1);
                            p3 = (if length workspaceInvitations > 0
                                  then joinWorkspaces p2 user workspaceInvitations
                                  else p2)
                        in (Inr createdUser, p3,
                            \<lparr>fx_events = events, fx_webhook_posts = posts,
                             fx_console_errors = logs\<rparr>)))))"

text \<open>
  \<open>p.verificationToken.delete\<close> by the composite key: the store removes the row and answers
  it, or rejects the call with code \<open>P2025\<close> when no row has the key.
\<close>

definition verificationToken_delete ::
  "prisma \<Rightarrow> string \<times> string \<Rightarrow> (error + VerificationToken) \<times> prisma" where
  "verificationToken_delete p identifier_token =
     (case p_verificationTokens p identifier_token of
        None \<Rightarrow> (Inl (PrismaError ''P2025''), p)
      | Some row \<Rightarrow>
          (Inr row, p\<lparr>p_verificationTokens := (p_verificationTokens p)(identifier_token := None)\<rparr>))"

definition error_code :: "error \<Rightarrow> string option" where
  "error_code err = (case err of PrismaError c \<Rightarrow> Some c | _ \<Rightarrow> None)"

text \<open>
  The \<open>try\<close>/\<open>catch\<close> of \<open>useVerificationToken\<close> around a delete that answered \<open>r\<close>: the row is
  returned, the code \<open>P2025\<close> becomes \<open>null\<close>, anything else is thrown again.
\<close>

definition useVerificationToken_catch ::
  "error + VerificationToken \<Rightarrow> error + VerificationToken option" where
  "useVerificationToken_catch r =
     (case r of
        Inr row \<Rightarrow> Inr (Some row)
      | Inl err \<Rightarrow> if error_code err = Some ''P2025'' then Inr None else Inl err)"

definition useVerificationToken ::
  "prisma \<Rightarrow> string \<times> string \<Rightarrow> (error + VerificationToken option) \<times> prisma" where
  "useVerificationToken p identifier_token =
     (case verificationToken_delete p identifier_token of
        (r, p') \<Rightarrow> (useVerificationToken_catch r, p'))"

section \<open>The profile-update endpoint\<close>

text \<open>
  The endpoint forwards whatever keys the request body has, so here a JSON object is a
  function from keys to values, with \<open>JUndefined\<close> for a key the object does not have (what
  reading it gives in JavaScript), and a user row is such an object. Numbers are integers
  here; no number is computed with.
\<close>

datatype json =
    JUndefined
  | JNull
  | JBool bool
  | JNumber int
  | JString string
  | JArray "json list"
  | JObject "(string \<times> json) list"

type_synonym object = "string \<Rightarrow> json"

text \<open>Truthiness: \<open>undefined\<close>, \<open>null\<close>, \<open>false\<close>, \<open>0\<close> and \<open>""\<close> are falsy; every array and object is truthy.\<close>

fun truthy_json :: "json \<Rightarrow> bool" where
  "truthy_json JUndefined = False"
| "truthy_json JNull = False"
| "truthy_json (JBool b) = b"
| "truthy_json (JNumber n) = (n \<noteq> 0)"
| "truthy_json (JString s) = (s \<noteq> [])"
| "truthy_json (JArray xs) = True"
| "truthy_json (JObject kvs) = True"

text \<open>\<open>v ?? undefined\<close>.\<close>

definition nullish_to_undefined :: "json \<Rightarrow> json" where
  "nullish_to_undefined v = (if v = JNull \<or> v = JUndefined then JUndefined else v)"

text \<open>
  \<open>prisma.user.update({where: {id}, data})\<close>: the call is rejected (code \<open>P2025\<close>) when no row
  has the identifier; otherwise every key whose value in \<open>data\<close> is not \<open>undefined\<close> is
  written, the others are left as they are, and the updated row is the answer. The checks
  the schema makes on the values themselves are not modelled.
\<close>

definition user_update ::
  "(string \<rightharpoonup> object) \<Rightarrow> string \<Rightarrow> object \<Rightarrow> error + (object \<times> (string \<rightharpoonup> object))" where
  "user_update users uid data =
     (case users uid of
        None \<Rightarrow> Inl (PrismaError ''P2025'')
      | Some row \<Rightarrow>
          (let row' = (\<lambda>k. if data k = JUndefined then row k else data k)
           in Inr (row', users(uid \<mapsto> row'))))"

datatype request_body = Body_string string | Body_object object

record users_request =
  rq_method :: "string option"
  rq_userId :: string
  rq_body :: request_body

text \<open>A response: a bare status, or \<open>res.send({typebots})\<close> carrying the updated row.\<close>

datatype users_response =
    Response_status nat
  | Response_send_typebots object

text \<open>
  Modelled from the spec: \<open>notAuthenticated\<close> and \<open>methodNotAllowed\<close> (lib/api/utils) are not
  among the sources. The spec gives their status codes: 401 for a caller that is not
  authenticated, 405 for a method that is not allowed.
\<close>

definition notAuthenticated :: users_response where
  "notAuthenticated = Response_status 401"

definition methodNotAllowed :: users_response where
  "methodNotAllowed = Response_status 405"

text \<open>
  The handler of \<open>/api/users/[userId]\<close>. \<open>auth\<close> is what \<open>getAuthenticatedUser\<close> answers (the
  caller's user identifier, or \<open>None\<close>), \<open>parse\<close> is \<open>JSON.parse\<close> (\<open>None\<close> where it throws). The
  result is the response or the thrown error, the user table afterwards and the telemetry
  events tracked.
\<close>

definition users_handler ::
  "string option \<Rightarrow> (string \<Rightarrow> object option) \<Rightarrow> (string \<rightharpoonup> object) \<Rightarrow> users_request
     \<Rightarrow> (error + users_response) \<times> (string \<rightharpoonup> object) \<times> TelemetryEvent list" where
  "users_handler auth parse users req =
     (case auth of
        None \<Rightarrow> (Inr notAuthenticated, users, [])
      | Some user_id \<Rightarrow>
          if rq_method req = Some ''PATCH'' then
            (case (case rq_body req of
                     Body_string s \<Rightarrow> parse s
                   | Body_object obj \<Rightarrow> Some obj) of
               None \<Rightarrow> (Inl SyntaxError, users, [])
             | Some data \<Rightarrow>
                 (case user_update users (rq_userId req)
                         (data(''onboardingCategories'' := data ''onboardingCategories'',
                               ''displayedInAppNotifications'' :=
                                 nullish_to_undefined (data ''displayedInAppNotifications''),
                               ''groupTitlesAutoGeneration'' :=
                                 nullish_to_undefined (data ''groupTitlesAutoGeneration''))) of
                    Inl err \<Rightarrow> (Inl err, users, [])
                  | Inr (typebots, users') \<Rightarrow>
                      (Inr (Response_send_typebots typebots),
                       users',
                       if truthy_json (data ''onboardingCategories'') \<or>
                          truthy_json (data ''referral'') \<or>
                          truthy_json (data ''company'') \<or>
                          truthy_json (data ''name'')
                       then [User_updated user_id] else [])))
          else (Inr methodNotAllowed, users, []))"

text \<open>Reading one field of a stored user row (\<open>undefined\<close> when the table has no such row).\<close>

definition field_of :: "(string \<rightharpoonup> object) \<Rightarrow> string \<Rightarrow> string \<Rightarrow> json" where
  "field_of users uid k = (case users uid of None \<Rightarrow> JUndefined | Some row \<Rightarrow> row k)"

text \<open>An object literal: the listed keys, every other key \<open>undefined\<close>.\<close>

definition object_of :: "(string \<times> json) list \<Rightarrow> object" where
  "object_of kvs = (\<lambda>k. case map_of kvs k of None \<Rightarrow> JUndefined | Some v \<Rightarrow> v)"

section \<open>Plain configurations for concrete runs\<close>

text \<open>Nothing configured, an empty store, and an outside world where every request fails.\<close>

definition env_unset :: env where
  "env_unset =
     \<lparr>DISABLE_SIGNUP = False, ADMIN_EMAIL = None, REJECT_DISPOSABLE_EMAILS = False,
      GITLAB_REQUIRED_GROUPS = None, USER_CREATED_WEBHOOK_URL = None, REDIS_URL = None,
      NEXT_PUBLIC_E2E_TEST = False\<rparr>"

definition prisma_empty :: prisma where
  "prisma_empty =
     \<lparr>p_users = [], p_apiTokens = [], p_workspaces = [], p_members = [],
      p_invitations = [], p_workspaceInvitations = [], p_collaborators = [],
      p_verificationTokens = Map.empty\<rparr>"

definition world_offline :: world where
  "world_offline = \<lparr>disposable_blocklist = None, gitlab_api = (\<lambda>tok page. None)\<rparr>"

definition deps_fixed :: deps where
  "deps_fixed =
     \<lparr>createId = ''cuid1'', generateId = (\<lambda>n. replicate n CHR ''t''),
      newWorkspaceId = ''ws1'', parseWorkspaceDefaultPlan = (\<lambda>email. ''FREE''),
      webhook_ok = True\<rparr>"

section \<open>The helpers on concrete values\<close>

lemma split_examples:
  "split CHR ''@'' ''ann@example.org'' = [''ann'', ''example.org'']"
  "split CHR ''@'' ''no-at-sign'' = [''no-at-sign'']"
  "split CHR 0x0A [] = [[]]"
  "at_index (split CHR ''@'' ''no-at-sign'') 1 = None"
  by (simp_all add: at_index_def)

text \<open>A listing of two pages: the second page is fetched and its groups are appended.\<close>

lemma getGitlabGroups_two_pages:
  "getGitlabGroups
     (\<lambda>page. if page = 1
              then Some \<lparr>resp_groups = [\<lparr>full_path = ''a''\<rparr>], resp_next_page = Some 2\<rparr>
              else Some \<lparr>resp_groups = [\<lparr>full_path = ''b''\<rparr>], resp_next_page = None\<rparr>) 1
   = Some (Inr [\<lparr>full_path = ''a''\<rparr>, \<lparr>full_path = ''b''\<rparr>])"
  by (subst getGitlabGroups.simps, simp, subst getGitlabGroups.simps, simp)

text \<open>A new user whose email domain is on the fetched list is denied without an error.\<close>

lemma signIn_disposable_email_denied:
  "signIn (env_unset\<lparr>REJECT_DISPOSABLE_EMAILS := True\<rparr>)
     (world_offline\<lparr>disposable_blocklist := Some (''mailinator.com'' @ [CHR 0x0A] @ ''yopmail.com'')\<rparr>)
     prisma_empty None (Some \<lparr>provider = ''github'', access_token = None\<rparr>)
     \<lparr>su_id = ''x'', su_email = Some ''joe@yopmail.com'', su_createdAt = None\<rparr>
   = Some (Inr False, [])"
  by (simp add: signIn_def disposableEmailCheck_def env_unset_def world_offline_def
      isDefined_def truthy_def at_index_def array_includes_def)

text \<open>Without an account payload the callback returns \<open>false\<close>.\<close>

lemma signIn_without_account:
  "signIn e w p None None user = Some (Inr False, [])"
  by (simp add: signIn_def)

section \<open>Facts about the sign-in decision procedure\<close>

lemma checkHasGroups_inter:
  "checkHasGroups userGroups requiredGroups \<longleftrightarrow> set userGroups \<inter> set requiredGroups \<noteq> {}"
  by (auto simp: checkHasGroups_def array_includes_def list_ex_iff)

lemma signIn_rate_limited:
  "signIn e w p (Some Rate_limited) account user = Some (Inl (Error ''rate-limited''), [])"
  by (simp add: signIn_def)

lemma signIn_without_required_groups:
  assumes "disposableEmailCheck e w (\<not> isDefined (su_createdAt user)) (su_email user) = Inr False"
    and "\<not> signupDisabledCheck e p (\<not> isDefined (su_createdAt user)) (su_email user)"
    and "getRequiredGroups e (provider acc) = []"
  shows "signIn e w p None (Some acc) user =
           Some (Inr True,
                 if isDefined (su_createdAt user) then [User_logged_in (su_id user)] else [])"
  using assms by (simp add: signIn_def)

lemma signIn_with_required_groups:
  assumes "disposableEmailCheck e w (\<not> isDefined (su_createdAt user)) (su_email user) = Inr False"
    and "\<not> signupDisabledCheck e p (\<not> isDefined (su_createdAt user)) (su_email user)"
    and "getRequiredGroups e (provider acc) \<noteq> []"
    and "getUserGroups w acc = Some (Inr userGroups)"
  shows "signIn e w p None (Some acc) user =
           Some (Inr (checkHasGroups userGroups (getRequiredGroups e (provider acc))), [])"
  using assms by (simp add: signIn_def)

text \<open>A listing that fits one page: the first answer names no next page.\<close>

lemma getGitlabGroups_single_page:
  "api page = Some \<lparr>resp_groups = gs, resp_next_page = None\<rparr> \<Longrightarrow>
     getGitlabGroups api page = Some (Inr gs)"
  by (subst getGitlabGroups.simps) simp

lemma checks_skipped_without_email:
  assumes "\<not> truthy email"
  shows "disposableEmailCheck e w isNewUser email = Inr False
         \<and> \<not> signupDisabledCheck e p isNewUser email"
  using assms by (simp add: disposableEmailCheck_def signupDisabledCheck_def)

subsection \<open>The group authorization check\<close>

text \<open>
  Only the provider \<open>gitlab\<close> can have required groups, and only when its list is
  configured: every other provider has none, whatever GitLab's list is.
\<close>

lemma getRequiredGroups_cases:
  "getRequiredGroups e prov =
     (if prov = ''gitlab'' then (case GITLAB_REQUIRED_GROUPS e of None \<Rightarrow> [] | Some gs \<Rightarrow> gs)
      else [])"
  by (simp add: getRequiredGroups_def)

text \<open>
  Claim C7. \<open>checkHasGroups\<close> authorizes exactly when the fetched groups and the required
  groups share an element, compared as strings (so \<open>{"a","b"}\<close> against \<open>{"b","c"}\<close> is
  authorized, \<open>{"x"}\<close> against \<open>{"b","c"}\<close> is denied, and \<open>"B"\<close> does not match \<open>"b"\<close>). A
  provider has no required groups when it is not \<open>gitlab\<close> (whatever GitLab's list is) or
  when GitLab's list is not configured; the required groups of \<open>gitlab\<close> are its configured
  list. A sign-in that reaches this stage through a provider without a configured list is
  allowed, whatever the outside world would answer for the groups; with required groups,
  its answer is the answer of \<open>checkHasGroups\<close> on the fetched groups.
\<close>

theorem group_authorization:
  "(checkHasGroups userGroups requiredGroups \<longleftrightarrow> set userGroups \<inter> set requiredGroups \<noteq> {})
   \<and> checkHasGroups [''a'', ''b''] [''b'', ''c'']
   \<and> \<not> checkHasGroups [''x''] [''b'', ''c'']
   \<and> \<not> checkHasGroups [''B''] [''b'', ''c'']
   \<and> (GITLAB_REQUIRED_GROUPS e = None \<longrightarrow> getRequiredGroups e prov = [])
   \<and> (prov \<noteq> ''gitlab'' \<longrightarrow> getRequiredGroups e prov = [])
   \<and> (GITLAB_REQUIRED_GROUPS e = Some gs \<longrightarrow> getRequiredGroups e ''gitlab'' = gs)
   \<and> (disposableEmailCheck e w (\<not> isDefined (su_createdAt user)) (su_email user) = Inr False
        \<and> \<not> signupDisabledCheck e p (\<not> isDefined (su_createdAt user)) (su_email user)
        \<and> (provider acc \<noteq> ''gitlab'' \<or> GITLAB_REQUIRED_GROUPS e = None)
      \<longrightarrow> signIn e w p None (Some acc) user =
            Some (Inr True,
                  if isDefined (su_createdAt user) then [User_logged_in (su_id user)] else []))
   \<and> (disposableEmailCheck e w (\<not> isDefined (su_createdAt user)) (su_email user) = Inr False
        \<and> \<not> signupDisabledCheck e p (\<not> isDefined (su_createdAt user)) (su_email user)
        \<and> getRequiredGroups e (provider acc) = []
      \<longrightarrow> (\<exists>events. signIn e w p None (Some acc) user = Some (Inr True, events)))
   \<and> (disposableEmailCheck e w (\<not> isDefined (su_createdAt user)) (su_email user) = Inr False
        \<and> \<not> signupDisabledCheck e p (\<not> isDefined (su_createdAt user)) (su_email user)
        \<and> getRequiredGroups e (provider acc) \<noteq> []
        \<and> getUserGroups w acc = Some (Inr userGroups)
      \<longrightarrow> signIn e w p None (Some acc) user =
            Some (Inr (checkHasGroups userGroups (getRequiredGroups e (provider acc))), []))"
proof -
  have examples: "checkHasGroups [''a'', ''b''] [''b'', ''c'']"
    "\<not> checkHasGroups [''x''] [''b'', ''c'']" "\<not> checkHasGroups [''B''] [''b'', ''c'']"
    by (simp_all add: checkHasGroups_def array_includes_def)
  have unset: "GITLAB_REQUIRED_GROUPS e = None \<longrightarrow> getRequiredGroups e prov = []"
    and other: "prov \<noteq> ''gitlab'' \<longrightarrow> getRequiredGroups e prov = []"
    and configured: "GITLAB_REQUIRED_GROUPS e = Some gs \<longrightarrow> getRequiredGroups e ''gitlab'' = gs"
    by (simp_all add: getRequiredGroups_cases)
  have none: "getRequiredGroups e (provider acc) = []"
    if "provider acc \<noteq> ''gitlab'' \<or> GITLAB_REQUIRED_GROUPS e = None"
    using that by (auto simp: getRequiredGroups_cases)
  have unrestricted:
    "signIn e w p None (Some acc) user =
       Some (Inr True, if isDefined (su_createdAt user) then [User_logged_in (su_id user)] else [])"
    if "disposableEmailCheck e w (\<not> isDefined (su_createdAt user)) (su_email user) = Inr False"
      and "\<not> signupDisabledCheck e p (\<not> isDefined (su_createdAt user)) (su_email user)"
      and "provider acc \<noteq> ''gitlab'' \<or> GITLAB_REQUIRED_GROUPS e = None"
    using signIn_without_required_groups [OF that(1) that(2) none [OF that(3)]] .
  show ?thesis
    using examples unset other configured unrestricted
      checkHasGroups_inter [of userGroups requiredGroups]
      signIn_without_required_groups [of e w user p acc]
      signIn_with_required_groups [of e w user p acc userGroups]
    by blast
qed

theorem group_authorization_witness:
  "GITLAB_REQUIRED_GROUPS env_unset = None
   \<and> getRequiredGroups env_unset ''gitlab'' = []
   \<and> signIn env_unset world_offline prisma_empty None
        (Some \<lparr>provider = ''gitlab'', access_token = Some ''tok''\<rparr>)
        \<lparr>su_id = ''u1'', su_email = Some ''ann@example.org'', su_createdAt = Some 1\<rparr>
      = Some (Inr True, [User_logged_in ''u1''])
   \<and> getRequiredGroups (env_unset\<lparr>GITLAB_REQUIRED_GROUPS := Some [''b'', ''c'']\<rparr>) ''azure-ad''
      = []
   \<and> signIn (env_unset\<lparr>GITLAB_REQUIRED_GROUPS := Some [''b'', ''c'']\<rparr>)
        world_offline prisma_empty None
        (Some \<lparr>provider = ''azure-ad'', access_token = Some ''tok''\<rparr>)
        \<lparr>su_id = ''u1'', su_email = Some ''ann@example.org'', su_createdAt = None\<rparr>
      = Some (Inr True, [])
   \<and> getRequiredGroups (env_unset\<lparr>GITLAB_REQUIRED_GROUPS := Some [''b'', ''c'']\<rparr>) ''gitlab''
      = [''b'', ''c'']
   \<and> getUserGroups
        \<lparr>disposable_blocklist = None,
         gitlab_api = (\<lambda>tok page.
           Some \<lparr>resp_groups = [\<lparr>full_path = ''a''\<rparr>, \<lparr>full_path = ''b''\<rparr>],
                 resp_next_page = None\<rparr>)\<rparr>
        \<lparr>provider = ''gitlab'', access_token = Some ''tok''\<rparr> = Some (Inr [''a'', ''b''])
   \<and> signIn (env_unset\<lparr>GITLAB_REQUIRED_GROUPS := Some [''b'', ''c'']\<rparr>)
        \<lparr>disposable_blocklist = None,
         gitlab_api = (\<lambda>tok page.
           Some \<lparr>resp_groups = [\<lparr>full_path = ''a''\<rparr>, \<lparr>full_path = ''b''\<rparr>],
                 resp_next_page = None\<rparr>)\<rparr>
        prisma_empty None
        (Some \<lparr>provider = ''gitlab'', access_token = Some ''tok''\<rparr>)
        \<lparr>su_id = ''u1'', su_email = Some ''ann@example.org'', su_createdAt = None\<rparr>
      = Some (Inr True, [])"
proof -
  let ?acc = "\<lparr>provider = ''gitlab'', access_token = Some ''tok''\<rparr>"
  let ?azure = "\<lparr>provider = ''azure-ad'', access_token = Some ''tok''\<rparr>"
  let ?w = "\<lparr>disposable_blocklist = None,
         gitlab_api = (\<lambda>tok page.
           Some \<lparr>resp_groups = [\<lparr>full_path = ''a''\<rparr>, \<lparr>full_path = ''b''\<rparr>],
                 resp_next_page = None\<rparr>)\<rparr>"
  let ?e = "env_unset\<lparr>GITLAB_REQUIRED_GROUPS := Some [''b'', ''c'']\<rparr>"
  let ?old = "\<lparr>su_id = ''u1'', su_email = Some ''ann@example.org'', su_createdAt = Some 1\<rparr>"
  let ?new = "\<lparr>su_id = ''u1'', su_email = Some ''ann@example.org'', su_createdAt = None\<rparr>"
  have groups: "getUserGroups ?w ?acc = Some (Inr [''a'', ''b''])"
    by (simp add: getUserGroups_def getGitlabGroups_single_page)
  have unset: "GITLAB_REQUIRED_GROUPS env_unset = None"
    by (simp add: env_unset_def)
  have set_list: "GITLAB_REQUIRED_GROUPS ?e = Some [''b'', ''c'']"
    by simp
  have not_gitlab: "provider ?azure \<noteq> ''gitlab''" "''azure-ad'' \<noteq> ''gitlab''"
    by simp_all
  have is_gitlab: "provider ?acc = ''gitlab''"
    by simp
  have pre_old:
    "disposableEmailCheck env_unset world_offline (\<not> isDefined (su_createdAt ?old)) (su_email ?old)
       = Inr False"
    "\<not> signupDisabledCheck env_unset prisma_empty (\<not> isDefined (su_createdAt ?old)) (su_email ?old)"
    by (simp_all add: disposableEmailCheck_def signupDisabledCheck_def env_unset_def isDefined_def)
  have pre_azure:
    "disposableEmailCheck ?e world_offline (\<not> isDefined (su_createdAt ?new)) (su_email ?new)
       = Inr False"
    "\<not> signupDisabledCheck ?e prisma_empty (\<not> isDefined (su_createdAt ?new)) (su_email ?new)"
    by (simp_all add: disposableEmailCheck_def signupDisabledCheck_def env_unset_def isDefined_def)
  have pre_new:
    "disposableEmailCheck ?e ?w (\<not> isDefined (su_createdAt ?new)) (su_email ?new) = Inr False"
    "\<not> signupDisabledCheck ?e prisma_empty (\<not> isDefined (su_createdAt ?new)) (su_email ?new)"
    by (simp_all add: disposableEmailCheck_def signupDisabledCheck_def env_unset_def isDefined_def)
  note old = group_authorization
    [where userGroups = "[''a'', ''b'']" and requiredGroups = "[''b'', ''c'']" and e = env_unset
       and prov = "''gitlab''" and w = world_offline and user = ?old and p = prisma_empty
       and acc = ?acc and gs = "[''b'', ''c'']"]
  note azure = group_authorization
    [where userGroups = "[''a'', ''b'']" and requiredGroups = "[''b'', ''c'']" and e = ?e
       and prov = "''azure-ad''" and w = world_offline and user = ?new and p = prisma_empty
       and acc = ?azure and gs = "[''b'', ''c'']"]
  note new = group_authorization
    [where userGroups = "[''a'', ''b'']" and requiredGroups = "[''b'', ''c'']" and e = ?e
       and prov = "''gitlab''" and w = ?w and user = ?new and p = prisma_empty
       and acc = ?acc and gs = "[''b'', ''c'']"]
  from old unset have req_unset: "getRequiredGroups env_unset ''gitlab'' = []"
    by blast
  from old pre_old unset
  have "signIn env_unset world_offline prisma_empty None (Some ?acc) ?old
          = Some (Inr True,
                  if isDefined (su_createdAt ?old) then [User_logged_in (su_id ?old)] else [])"
    by blast
  then have allowed_old:
    "signIn env_unset world_offline prisma_empty None (Some ?acc) ?old
       = Some (Inr True, [User_logged_in ''u1''])"
    by (simp add: isDefined_def)
  from azure not_gitlab(2) have req_azure: "getRequiredGroups ?e ''azure-ad'' = []"
    by blast
  from azure pre_azure not_gitlab(1)
  have "signIn ?e world_offline prisma_empty None (Some ?azure) ?new
          = Some (Inr True,
                  if isDefined (su_createdAt ?new) then [User_logged_in (su_id ?new)] else [])"
    by blast
  then have allowed_azure:
    "signIn ?e world_offline prisma_empty None (Some ?azure) ?new = Some (Inr True, [])"
    by (simp add: isDefined_def)
  from new set_list have req_gitlab: "getRequiredGroups ?e ''gitlab'' = [''b'', ''c'']"
    by blast
  then have "getRequiredGroups ?e (provider ?acc) \<noteq> []"
    by simp
  with new pre_new groups
  have "signIn ?e ?w prisma_empty None (Some ?acc) ?new
          = Some (Inr (checkHasGroups [''a'', ''b''] (getRequiredGroups ?e (provider ?acc))), [])"
    by blast
  moreover from new have "checkHasGroups [''a'', ''b''] [''b'', ''c'']"
    by blast
  ultimately have allowed_new: "signIn ?e ?w prisma_empty None (Some ?acc) ?new = Some (Inr True, [])"
    using req_gitlab by simp
  from unset req_unset allowed_old req_azure allowed_azure req_gitlab groups allowed_new
  show ?thesis
    by blast
qed

subsection \<open>The rate-limit tag\<close>

text \<open>
  Claim C4. When the limiter is configured (it is then the sliding window of 1 request per
  60 seconds) and answers that the caller's address is over its limit, a \<open>POST\<close> to a URL
  that starts with \<open>/api/auth/signin/email\<close> is handed to the authentication library
  tagged rate-limited, and the sign-in callback built from that tag throws the error
  \<open>rate-limited\<close>: it neither returns \<open>false\<close> nor \<open>true\<close>, and the error is not the
  \<open>sign-up-disabled\<close> one.
\<close>

theorem rate_limited_request_throws:
  assumes "truthy (REDIS_URL e)"
    and "req_method req = Some ''POST''"
    and "req_url req = Some url"
    and "startsWith url ''/api/auth/signin/email''"
    and "truthy (req_ip req)"
    and "\<not> verdict (the (req_ip req))"
  shows "emailSignInRateLimiter e verdict
           = Some \<lparr>rl_tokens = 1, rl_window_seconds = 60, rl_limit = verdict\<rparr>
         \<and> handler e verdict req = NextAuth (Some Rate_limited)
         \<and> signIn e w p (Some Rate_limited) account user
             = Some (Inl (Error ''rate-limited''), [])
         \<and> signIn e w p (Some Rate_limited) account user \<noteq> Some (Inr allowed, events)
         \<and> signIn e w p (Some Rate_limited) account user
             \<noteq> Some (Inl (Error ''sign-up-disabled''), events)"
proof -
  have limiter: "emailSignInRateLimiter e verdict
                   = Some \<lparr>rl_tokens = 1, rl_window_seconds = 60, rl_limit = verdict\<rparr>"
    using assms(1) by (simp add: emailSignInRateLimiter_def)
  have tagged: "handler e verdict req = NextAuth (Some Rate_limited)"
    using assms(2-6) by (simp add: handler_def limiter)
  show ?thesis
    using limiter tagged by (simp add: signIn_rate_limited)
qed

theorem rate_limited_request_throws_witness:
  "truthy (REDIS_URL (env_unset\<lparr>REDIS_URL := Some ''redis://cache''\<rparr>))
   \<and> startsWith ''/api/auth/signin/email?json=true'' ''/api/auth/signin/email''
   \<and> handler (env_unset\<lparr>REDIS_URL := Some ''redis://cache''\<rparr>) (\<lambda>ip. ip \<noteq> ''10.0.0.1'')
        \<lparr>req_method = Some ''POST'', req_url = Some ''/api/auth/signin/email?json=true'',
         req_ip = Some ''10.0.0.1''\<rparr>
      = NextAuth (Some Rate_limited)
   \<and> signIn (env_unset\<lparr>REDIS_URL := Some ''redis://cache''\<rparr>) world_offline prisma_empty
        (Some Rate_limited) (Some \<lparr>provider = ''email'', access_token = None\<rparr>)
        \<lparr>su_id = ''u1'', su_email = Some ''ann@example.org'', su_createdAt = Some 1\<rparr>
      = Some (Inl (Error ''rate-limited''), [])"
proof -
  let ?e = "env_unset\<lparr>REDIS_URL := Some ''redis://cache''\<rparr>"
  let ?req = "\<lparr>req_method = Some ''POST'', req_url = Some ''/api/auth/signin/email?json=true'',
         req_ip = Some ''10.0.0.1''\<rparr>"
  have h1: "truthy (REDIS_URL ?e)"
    by (simp add: truthy_def)
  have h2: "req_method ?req = Some ''POST''"
    and h3: "req_url ?req = Some ''/api/auth/signin/email?json=true''"
    by simp_all
  have h4: "startsWith ''/api/auth/signin/email?json=true'' ''/api/auth/signin/email''"
    by (simp add: startsWith_def)
  have h5: "truthy (req_ip ?req)"
    by (simp add: truthy_def)
  have h6: "\<not> (\<lambda>ip. ip \<noteq> ''10.0.0.1'') (the (req_ip ?req))"
    by simp
  from rate_limited_request_throws
         [of ?e ?req "''/api/auth/signin/email?json=true''" "\<lambda>ip. ip \<noteq> ''10.0.0.1''"
             world_offline prisma_empty "Some \<lparr>provider = ''email'', access_token = None\<rparr>"
             "\<lparr>su_id = ''u1'', su_email = Some ''ann@example.org'', su_createdAt = Some 1\<rparr>",
          OF h1 h2 h3 h4 h5 h6]
       h1 h4
  show ?thesis
    by blast
qed

subsection \<open>A new user without an email\<close>

text \<open>
  Claim C9, as stated, fails on a request tagged rate-limited: with the account present,
  a new user without an email and no required groups, and with signup disabled and
  disposable emails rejected, the callback throws \<open>rate-limited\<close> instead of returning
  \<open>true\<close>.
\<close>

theorem new_user_without_email_rate_limited:
  "\<not> isDefined (su_createdAt \<lparr>su_id = ''u1'', su_email = None, su_createdAt = None\<rparr>)
   \<and> \<not> truthy (su_email \<lparr>su_id = ''u1'', su_email = None, su_createdAt = None\<rparr>)
   \<and> getRequiredGroups (env_unset\<lparr>DISABLE_SIGNUP := True, REJECT_DISPOSABLE_EMAILS := True\<rparr>)
        (provider \<lparr>provider = ''github'', access_token = None\<rparr>) = []
   \<and> signIn (env_unset\<lparr>DISABLE_SIGNUP := True, REJECT_DISPOSABLE_EMAILS := True\<rparr>)
        world_offline prisma_empty (Some Rate_limited)
        (Some \<lparr>provider = ''github'', access_token = None\<rparr>)
        \<lparr>su_id = ''u1'', su_email = None, su_createdAt = None\<rparr>
      = Some (Inl (Error ''rate-limited''), [])
   \<and> signIn (env_unset\<lparr>DISABLE_SIGNUP := True, REJECT_DISPOSABLE_EMAILS := True\<rparr>)
        world_offline prisma_empty (Some Rate_limited)
        (Some \<lparr>provider = ''github'', access_token = None\<rparr>)
        \<lparr>su_id = ''u1'', su_email = None, su_createdAt = None\<rparr>
      \<noteq> Some (Inr True, [])"
  by (simp add: signIn_def isDefined_def truthy_def getRequiredGroups_def)

text \<open>
  Claim C9, amended: on a request that is not tagged rate-limited, when the account
  payload is present and the user payload is new and has no email, the disposable-email
  block and the signup-disabled block are both skipped (whatever the configuration, the
  store and the outside world are), and the attempt is allowed, with no telemetry event,
  whenever the provider has no required groups.
\<close>

theorem new_user_without_email_allowed:
  assumes "\<not> isDefined (su_createdAt user)"
    and "\<not> truthy (su_email user)"
    and "getRequiredGroups e (provider acc) = []"
  shows "disposableEmailCheck e w True (su_email user) = Inr False
         \<and> \<not> signupDisabledCheck e p True (su_email user)
         \<and> signIn e w p None (Some acc) user = Some (Inr True, [])"
  using assms checks_skipped_without_email [of "su_email user" e w True p]
    signIn_without_required_groups [of e w user p acc]
  by simp

theorem new_user_without_email_allowed_witness:
  "\<not> isDefined (su_createdAt \<lparr>su_id = ''u1'', su_email = None, su_createdAt = None\<rparr>)
   \<and> \<not> truthy (su_email \<lparr>su_id = ''u1'', su_email = None, su_createdAt = None\<rparr>)
   \<and> getRequiredGroups (env_unset\<lparr>DISABLE_SIGNUP := True, REJECT_DISPOSABLE_EMAILS := True\<rparr>)
        (provider \<lparr>provider = ''github'', access_token = None\<rparr>) = []
   \<and> signIn (env_unset\<lparr>DISABLE_SIGNUP := True, REJECT_DISPOSABLE_EMAILS := True\<rparr>)
        world_offline prisma_empty None
        (Some \<lparr>provider = ''github'', access_token = None\<rparr>)
        \<lparr>su_id = ''u1'', su_email = None, su_createdAt = None\<rparr>
      = Some (Inr True, [])"
proof -
  let ?e = "env_unset\<lparr>DISABLE_SIGNUP := True, REJECT_DISPOSABLE_EMAILS := True\<rparr>"
  let ?acc = "\<lparr>provider = ''github'', access_token = None\<rparr>"
  let ?user = "\<lparr>su_id = ''u1'', su_email = None, su_createdAt = None\<rparr>"
  have h1: "\<not> isDefined (su_createdAt ?user)"
    by (simp add: isDefined_def)
  have h2: "\<not> truthy (su_email ?user)"
    by (simp add: truthy_def)
  have h3: "getRequiredGroups ?e (provider ?acc) = []"
    by (simp add: getRequiredGroups_def)
  from new_user_without_email_allowed [OF h1 h2 h3, of world_offline prisma_empty] h1 h2 h3
  show ?thesis by blast
qed

subsection \<open>Telemetry of a returning user\<close>

text \<open>
  Claim C5 at a concrete sign-in: a returning user (the creation marker is present) signs
  in through the provider that has required groups configured, and the fetched groups
  satisfy them. Every earlier check passes and the attempt is allowed, but the branch for
  required groups returns the result of \<open>checkHasGroups\<close> at once, so no "User logged in"
  event is tracked. The same sign-in with no required groups configured tracks the event.
\<close>

theorem returning_user_in_required_group_not_tracked:
  "isDefined (su_createdAt \<lparr>su_id = ''u1'', su_email = Some ''ann@example.org'', su_createdAt = Some 1\<rparr>)
   \<and> getRequiredGroups (env_unset\<lparr>GITLAB_REQUIRED_GROUPS := Some [''b'', ''c'']\<rparr>) ''gitlab''
      = [''b'', ''c'']
   \<and> getUserGroups
        \<lparr>disposable_blocklist = None,
         gitlab_api = (\<lambda>tok page.
           Some \<lparr>resp_groups = [\<lparr>full_path = ''a''\<rparr>, \<lparr>full_path = ''b''\<rparr>],
                 resp_next_page = None\<rparr>)\<rparr>
        \<lparr>provider = ''gitlab'', access_token = Some ''tok''\<rparr> = Some (Inr [''a'', ''b''])
   \<and> checkHasGroups [''a'', ''b''] [''b'', ''c'']
   \<and> signIn (env_unset\<lparr>GITLAB_REQUIRED_GROUPS := Some [''b'', ''c'']\<rparr>)
        \<lparr>disposable_blocklist = None,
         gitlab_api = (\<lambda>tok page.
           Some \<lparr>resp_groups = [\<lparr>full_path = ''a''\<rparr>, \<lparr>full_path = ''b''\<rparr>],
                 resp_next_page = None\<rparr>)\<rparr>
        prisma_empty None
        (Some \<lparr>provider = ''gitlab'', access_token = Some ''tok''\<rparr>)
        \<lparr>su_id = ''u1'', su_email = Some ''ann@example.org'', su_createdAt = Some 1\<rparr>
      = Some (Inr True, [])
   \<and> signIn env_unset
        \<lparr>disposable_blocklist = None,
         gitlab_api = (\<lambda>tok page.
           Some \<lparr>resp_groups = [\<lparr>full_path = ''a''\<rparr>, \<lparr>full_path = ''b''\<rparr>],
                 resp_next_page = None\<rparr>)\<rparr>
        prisma_empty None
        (Some \<lparr>provider = ''gitlab'', access_token = Some ''tok''\<rparr>)
        \<lparr>su_id = ''u1'', su_email = Some ''ann@example.org'', su_createdAt = Some 1\<rparr>
      = Some (Inr True, [User_logged_in ''u1''])"
proof -
  let ?w = "\<lparr>disposable_blocklist = None,
         gitlab_api = (\<lambda>tok page.
           Some \<lparr>resp_groups = [\<lparr>full_path = ''a''\<rparr>, \<lparr>full_path = ''b''\<rparr>],
                 resp_next_page = None\<rparr>)\<rparr>"
  let ?acc = "\<lparr>provider = ''gitlab'', access_token = Some ''tok''\<rparr>"
  have groups: "getUserGroups ?w ?acc = Some (Inr [''a'', ''b''])"
    by (simp add: getUserGroups_def getGitlabGroups_single_page)
  have member: "checkHasGroups [''a'', ''b''] [''b'', ''c'']"
    by (simp add: checkHasGroups_def array_includes_def)
  show ?thesis
    using groups member
    by (simp add: signIn_def disposableEmailCheck_def signupDisabledCheck_def
        getRequiredGroups_def isDefined_def env_unset_def)
qed

section \<open>Facts about the store adapter\<close>

subsection \<open>Verification tokens\<close>

text \<open>
  Claim C2. \<open>useVerificationToken\<close> on a key that has a row removes the row from the store and
  returns it; on a key that has no row it returns \<open>null\<close> and leaves the store as it is. It
  throws in neither case, and a second call with the same key, on the store the first call
  left, returns \<open>null\<close>.
\<close>

theorem useVerificationToken_fetch_and_delete:
  "(p_verificationTokens p k = Some row \<longrightarrow>
      useVerificationToken p k
        = (Inr (Some row), p\<lparr>p_verificationTokens := (p_verificationTokens p)(k := None)\<rparr>))
   \<and> (p_verificationTokens p k = None \<longrightarrow> useVerificationToken p k = (Inr None, p))
   \<and> (\<exists>found. fst (useVerificationToken p k) = Inr found)
   \<and> useVerificationToken (snd (useVerificationToken p k)) k
       = (Inr None, snd (useVerificationToken p k))"
proof -
  have hit: "useVerificationToken q k
               = (Inr (Some r), q\<lparr>p_verificationTokens := (p_verificationTokens q)(k := None)\<rparr>)"
    if "p_verificationTokens q k = Some r" for q r
    using that
    by (simp add: useVerificationToken_def verificationToken_delete_def
        useVerificationToken_catch_def)
  have miss: "useVerificationToken q k = (Inr None, q)"
    if "p_verificationTokens q k = None" for q
    using that
    by (simp add: useVerificationToken_def verificationToken_delete_def
        useVerificationToken_catch_def error_code_def)
  have gone: "p_verificationTokens (snd (useVerificationToken p k)) k = None"
    by (cases "p_verificationTokens p k") (simp_all add: hit miss)
  have returns: "\<exists>found. fst (useVerificationToken p k) = Inr found"
    by (cases "p_verificationTokens p k") (simp_all add: hit miss)
  from hit [of p row] miss [of p] returns miss [OF gone] show ?thesis
    by blast
qed

theorem useVerificationToken_fetch_and_delete_witness:
  "p_verificationTokens
     (prisma_empty\<lparr>p_verificationTokens :=
        [(''ann@example.org'', ''123456'') \<mapsto>
           \<lparr>vt_identifier = ''ann@example.org'', vt_token = ''123456'', vt_expires = 300\<rparr>]\<rparr>)
     (''ann@example.org'', ''123456'')
     = Some \<lparr>vt_identifier = ''ann@example.org'', vt_token = ''123456'', vt_expires = 300\<rparr>
   \<and> fst (useVerificationToken
        (prisma_empty\<lparr>p_verificationTokens :=
           [(''ann@example.org'', ''123456'') \<mapsto>
              \<lparr>vt_identifier = ''ann@example.org'', vt_token = ''123456'', vt_expires = 300\<rparr>]\<rparr>)
        (''ann@example.org'', ''123456''))
     = Inr (Some \<lparr>vt_identifier = ''ann@example.org'', vt_token = ''123456'', vt_expires = 300\<rparr>)
   \<and> p_verificationTokens prisma_empty (''ann@example.org'', ''123456'') = None
   \<and> useVerificationToken prisma_empty (''ann@example.org'', ''123456'')
     = (Inr None, prisma_empty)"
proof -
  let ?k = "(''ann@example.org'', ''123456'')"
  let ?row = "\<lparr>vt_identifier = ''ann@example.org'', vt_token = ''123456'', vt_expires = 300\<rparr>"
  let ?p = "prisma_empty\<lparr>p_verificationTokens := [?k \<mapsto> ?row]\<rparr>"
  have present: "p_verificationTokens ?p ?k = Some ?row"
    by simp
  have absent: "p_verificationTokens prisma_empty ?k = None"
    by (simp add: prisma_empty_def)
  from useVerificationToken_fetch_and_delete [of ?p ?k ?row] present
  have "fst (useVerificationToken ?p ?k) = Inr (Some ?row)"
    by simp
  moreover from useVerificationToken_fetch_and_delete [of prisma_empty ?k] absent
  have "useVerificationToken prisma_empty ?k = (Inr None, prisma_empty)"
    by blast
  ultimately show ?thesis
    using present absent by blast
qed

subsection \<open>Creating a user\<close>

text \<open>
  The two ways \<open>createUser\<close> ends well, by whether the email has pending workspace
  invitations. Both need the store to accept the new row (identifier and email unused).
\<close>

lemma createUser_invited:
  assumes "truthy (au_email data)"
    and "getNewUserInvitations p (the (au_email data)) = (invitations, workspaceInvitations)"
    and "workspaceInvitations \<noteq> []"
    and "uid = (if truthy (au_id data) then the (au_id data) else createId d)"
    and "\<not> list_ex (\<lambda>u. u_id u = uid \<or> u_email u = the (au_email data)) (p_users p)"
  shows "\<exists>createdUser p' fx.
           createUser e d p data = (Inr createdUser, p', fx)
           \<and> u_id createdUser = uid
           \<and> p_users p' = p_users p @ [createdUser]
           \<and> p_workspaces p' = p_workspaces p
           \<and> p_members p' = p_members p @
                map (\<lambda>i. \<lparr>m_userId = uid, m_workspaceId = wi_workspaceId i, m_role = wi_type i\<rparr>)
                  workspaceInvitations
           \<and> fx_events fx = [User_created uid]"
  using assms
  by (simp add: createUser_def user_create_def joinWorkspaces_def
      convertInvitationsToCollaborations_def truthy_def Let_def)

lemma createUser_uninvited:
  assumes "createUser e d p data = (Inr createdUser, p', fx)"
    and "getNewUserInvitations p (the (au_email data)) = (invitations, [])"
  shows "p_workspaces p' = p_workspaces p @
           [\<lparr>w_id = newWorkspaceId d,
             w_name = (if truthy (au_name data)
                       then the (au_name data) @ CHR 0x27 # ''s workspace''
                       else ''My workspace''),
             w_plan = parseWorkspaceDefaultPlan d (the (au_email data))\<rparr>]
         \<and> p_members p' = p_members p @
             [\<lparr>m_userId = u_id createdUser, m_workspaceId = newWorkspaceId d, m_role = ADMIN\<rparr>]"
  using assms
  by (auto simp: createUser_def user_create_def joinWorkspaces_def
      convertInvitationsToCollaborations_def Let_def split: if_splits)

text \<open>
  Claim C3. For an email with at least one pending workspace invitation, \<open>createUser\<close> (on a
  store that accepts the new row) returns the user, creates no workspace, tracks no
  "Workspace created" event, and adds exactly one membership per invitation, in the
  invited workspace with the invitation's role. A call that ends well for an email with no
  workspace invitation creates the personal workspace with the user as its administrator
  and adds no other membership. So no call does both.
\<close>

theorem createUser_invited_or_personal_workspace:
  "(truthy (au_email data)
      \<and> getNewUserInvitations p (the (au_email data)) = (invitations, workspaceInvitations)
      \<and> workspaceInvitations \<noteq> []
      \<and> uid = (if truthy (au_id data) then the (au_id data) else createId d)
      \<and> \<not> list_ex (\<lambda>u. u_id u = uid \<or> u_email u = the (au_email data)) (p_users p)
    \<longrightarrow> (\<exists>createdUser p' fx.
           createUser e d p data = (Inr createdUser, p', fx)
           \<and> u_id createdUser = uid
           \<and> p_workspaces p' = p_workspaces p
           \<and> p_members p' = p_members p @
                map (\<lambda>i. \<lparr>m_userId = uid, m_workspaceId = wi_workspaceId i, m_role = wi_type i\<rparr>)
                  workspaceInvitations
           \<and> fx_events fx = [User_created uid]))
   \<and> (createUser e d p data = (Inr created, q, effs)
      \<and> getNewUserInvitations p (the (au_email data)) = (invitations, [])
    \<longrightarrow> length (p_workspaces q) = Suc (length (p_workspaces p))
        \<and> p_members q = p_members p @
             [\<lparr>m_userId = u_id created, m_workspaceId = newWorkspaceId d, m_role = ADMIN\<rparr>])"
proof -
  have "length (p_workspaces q) = Suc (length (p_workspaces p))
        \<and> p_members q = p_members p @
             [\<lparr>m_userId = u_id created, m_workspaceId = newWorkspaceId d, m_role = ADMIN\<rparr>]"
    if "createUser e d p data = (Inr created, q, effs)"
      and "getNewUserInvitations p (the (au_email data)) = (invitations, [])"
    using createUser_uninvited [OF that] by simp
  then show ?thesis
    using createUser_invited [of data p invitations workspaceInvitations uid d e]
    by blast
qed

theorem createUser_invited_or_personal_workspace_witness:
  "truthy (au_email \<lparr>au_id = None, au_email = Some ''bob@example.org'', au_name = Some ''Bob'',
                      au_image = None, au_emailVerified = None\<rparr>)
   \<and> getNewUserInvitations
        (prisma_empty\<lparr>p_workspaceInvitations :=
           [\<lparr>wi_email = ''bob@example.org'', wi_workspaceId = ''team'', wi_type = MEMBER\<rparr>]\<rparr>)
        ''bob@example.org''
      = ([], [\<lparr>wi_email = ''bob@example.org'', wi_workspaceId = ''team'', wi_type = MEMBER\<rparr>])
   \<and> (\<exists>createdUser p' fx.
         createUser env_unset deps_fixed
           (prisma_empty\<lparr>p_workspaceInvitations :=
              [\<lparr>wi_email = ''bob@example.org'', wi_workspaceId = ''team'', wi_type = MEMBER\<rparr>]\<rparr>)
           \<lparr>au_id = None, au_email = Some ''bob@example.org'', au_name = Some ''Bob'',
            au_image = None, au_emailVerified = None\<rparr>
         = (Inr createdUser, p', fx)
         \<and> p_workspaces p' = []
         \<and> p_members p' = [\<lparr>m_userId = ''cuid1'', m_workspaceId = ''team'', m_role = MEMBER\<rparr>]
         \<and> fx_events fx = [User_created ''cuid1''])
   \<and> getNewUserInvitations prisma_empty ''bob@example.org'' = ([], [])
   \<and> fst (createUser env_unset deps_fixed prisma_empty
        \<lparr>au_id = None, au_email = Some ''bob@example.org'', au_name = Some ''Bob'',
         au_image = None, au_emailVerified = None\<rparr>)
      = Inr \<lparr>u_id = ''cuid1'', u_email = ''bob@example.org'', u_name = Some ''Bob'',
             u_image = None, u_emailVerified = None, u_onboardingCategories = []\<rparr>
   \<and> p_members (fst (snd (createUser env_unset deps_fixed prisma_empty
        \<lparr>au_id = None, au_email = Some ''bob@example.org'', au_name = Some ''Bob'',
         au_image = None, au_emailVerified = None\<rparr>)))
      = [\<lparr>m_userId = ''cuid1'', m_workspaceId = ''ws1'', m_role = ADMIN\<rparr>]"
proof -
  let ?data = "\<lparr>au_id = None, au_email = Some ''bob@example.org'', au_name = Some ''Bob'',
                 au_image = None, au_emailVerified = None\<rparr>"
  let ?wi = "\<lparr>wi_email = ''bob@example.org'', wi_workspaceId = ''team'', wi_type = MEMBER\<rparr>"
  let ?p = "prisma_empty\<lparr>p_workspaceInvitations := [?wi]\<rparr>"
  let ?u = "\<lparr>u_id = ''cuid1'', u_email = ''bob@example.org'', u_name = Some ''Bob'',
              u_image = None, u_emailVerified = None, u_onboardingCategories = []\<rparr>"
  have email: "truthy (au_email ?data)"
    by (simp add: truthy_def)
  have invited: "getNewUserInvitations ?p (the (au_email ?data)) = ([], [?wi])"
    by (simp add: getNewUserInvitations_def prisma_empty_def)
  have uid: "''cuid1'' = (if truthy (au_id ?data) then the (au_id ?data) else createId deps_fixed)"
    by (simp add: truthy_def deps_fixed_def)
  have unused: "\<not> list_ex (\<lambda>u. u_id u = ''cuid1'' \<or> u_email u = the (au_email ?data)) (p_users ?p)"
    by (simp add: prisma_empty_def)
  have uninvited: "getNewUserInvitations prisma_empty (the (au_email ?data)) = ([], [])"
    by (simp add: getNewUserInvitations_def prisma_empty_def)
  let ?r = "createUser env_unset deps_fixed prisma_empty ?data"
  have returned: "fst ?r = Inr ?u"
    by (simp add: createUser_def user_create_def getNewUserInvitations_def prisma_empty_def
        env_unset_def deps_fixed_def truthy_def Let_def)
  then have run: "?r = (Inr ?u, fst (snd ?r), snd (snd ?r))"
    by (metis prod.collapse)
  note first = createUser_invited_or_personal_workspace
    [where data = ?data and p = ?p and invitations = "[]" and workspaceInvitations = "[?wi]"
       and uid = "''cuid1''" and d = deps_fixed and e = env_unset]
  note second = createUser_invited_or_personal_workspace
    [where data = ?data and p = prisma_empty and invitations = "[]" and d = deps_fixed
       and e = env_unset and created = ?u and q = "fst (snd ?r)" and effs = "snd (snd ?r)"]
  have "[?wi] \<noteq> []"
    by simp
  with first email invited uid unused
  have "\<exists>createdUser p' fx.
         createUser env_unset deps_fixed ?p ?data = (Inr createdUser, p', fx)
         \<and> u_id createdUser = ''cuid1''
         \<and> p_workspaces p' = p_workspaces ?p
         \<and> p_members p' = p_members ?p @
              map (\<lambda>i. \<lparr>m_userId = ''cuid1'', m_workspaceId = wi_workspaceId i,
                         m_role = wi_type i\<rparr>) [?wi]
         \<and> fx_events fx = [User_created ''cuid1'']"
    by blast
  then have part1: "\<exists>createdUser p' fx.
         createUser env_unset deps_fixed ?p ?data = (Inr createdUser, p', fx)
         \<and> p_workspaces p' = []
         \<and> p_members p' = [\<lparr>m_userId = ''cuid1'', m_workspaceId = ''team'', m_role = MEMBER\<rparr>]
         \<and> fx_events fx = [User_created ''cuid1'']"
    by (elim exE conjE, intro exI conjI) (simp_all add: prisma_empty_def)
  from second run uninvited
  have "p_members (fst (snd ?r)) = p_members prisma_empty @
          [\<lparr>m_userId = u_id ?u, m_workspaceId = newWorkspaceId deps_fixed, m_role = ADMIN\<rparr>]"
    by blast
  then have part2: "p_members (fst (snd ?r))
                      = [\<lparr>m_userId = ''cuid1'', m_workspaceId = ''ws1'', m_role = ADMIN\<rparr>]"
    by (simp add: prisma_empty_def deps_fixed_def)
  from invited uninvited
  have lookups: "getNewUserInvitations ?p ''bob@example.org'' = ([], [?wi])"
    "getNewUserInvitations prisma_empty ''bob@example.org'' = ([], [])"
    by simp_all
  from email lookups part1 returned part2 show ?thesis
    by blast
qed

text \<open>
  With an admin allow-list configured, the signup gate of \<open>createUser\<close> does what its error
  message says: signup disabled, an email that is not on the list and no pending
  invitation give the error "New users are forbidden", and nothing is written or tracked.
\<close>

theorem createUser_new_users_forbidden:
  assumes "truthy (au_email data)"
    and "DISABLE_SIGNUP e"
    and "ADMIN_EMAIL e = Some admins"
    and "the (au_email data) \<notin> set admins"
    and "getNewUserInvitations p (the (au_email data)) = ([], [])"
  shows "createUser e d p data = (Inl (Error ''New users are forbidden''), p, no_effects)"
proof -
  have "list_all (\<lambda>email. email \<noteq> the (au_email data)) admins"
    using assms(4) by (auto simp: list_all_iff)
  with assms(1,2,3,5) show ?thesis
    by (simp add: createUser_def)
qed

theorem createUser_new_users_forbidden_witness:
  "truthy (au_email \<lparr>au_id = None, au_email = Some ''eve@example.org'', au_name = None,
                      au_image = None, au_emailVerified = None\<rparr>)
   \<and> DISABLE_SIGNUP (env_unset\<lparr>DISABLE_SIGNUP := True, ADMIN_EMAIL := Some [''root@example.org'']\<rparr>)
   \<and> ''eve@example.org'' \<notin> set [''root@example.org'']
   \<and> getNewUserInvitations prisma_empty ''eve@example.org'' = ([], [])
   \<and> createUser (env_unset\<lparr>DISABLE_SIGNUP := True, ADMIN_EMAIL := Some [''root@example.org'']\<rparr>)
        deps_fixed prisma_empty
        \<lparr>au_id = None, au_email = Some ''eve@example.org'', au_name = None,
         au_image = None, au_emailVerified = None\<rparr>
      = (Inl (Error ''New users are forbidden''), prisma_empty, no_effects)"
proof -
  let ?data = "\<lparr>au_id = None, au_email = Some ''eve@example.org'', au_name = None,
                 au_image = None, au_emailVerified = None\<rparr>"
  let ?e = "env_unset\<lparr>DISABLE_SIGNUP := True, ADMIN_EMAIL := Some [''root@example.org'']\<rparr>"
  have h1: "truthy (au_email ?data)"
    by (simp add: truthy_def)
  have h2: "DISABLE_SIGNUP ?e"
    and h3: "ADMIN_EMAIL ?e = Some [''root@example.org'']"
    by simp_all
  have h4: "the (au_email ?data) \<notin> set [''root@example.org'']"
    by simp
  have h5: "getNewUserInvitations prisma_empty (the (au_email ?data)) = ([], [])"
    by (simp add: getNewUserInvitations_def prisma_empty_def)
  from createUser_new_users_forbidden [OF h1 h2 h3 h4 h5, of deps_fixed] h1 h2 h4 h5
  show ?thesis
    by simp
qed

text \<open>
  Claim C1 at a concrete call: signup is disabled, no admin allow-list is configured (so
  the email is on none), and the email has no pending invitation of either kind. The gate
  of \<open>createUser\<close> reads \<open>env.ADMIN_EMAIL?.every(...)\<close>, which is \<open>undefined\<close> without a list, so
  the call does not fail: it returns the user and writes the user row. On the same
  configuration and store the sign-in callback, whose gate reads
  \<open>!env.ADMIN_EMAIL?.includes(...)\<close>, does throw \<open>sign-up-disabled\<close>.
\<close>

theorem createUser_signup_disabled_without_admin_list:
  "DISABLE_SIGNUP (env_unset\<lparr>DISABLE_SIGNUP := True\<rparr>)
   \<and> ADMIN_EMAIL (env_unset\<lparr>DISABLE_SIGNUP := True\<rparr>) = None
   \<and> getNewUserInvitations prisma_empty ''eve@example.org'' = ([], [])
   \<and> fst (createUser (env_unset\<lparr>DISABLE_SIGNUP := True\<rparr>) deps_fixed prisma_empty
        \<lparr>au_id = None, au_email = Some ''eve@example.org'', au_name = None,
         au_image = None, au_emailVerified = None\<rparr>)
      = Inr \<lparr>u_id = ''cuid1'', u_email = ''eve@example.org'', u_name = None, u_image = None,
             u_emailVerified = None, u_onboardingCategories = []\<rparr>
   \<and> p_users (fst (snd (createUser (env_unset\<lparr>DISABLE_SIGNUP := True\<rparr>) deps_fixed prisma_empty
        \<lparr>au_id = None, au_email = Some ''eve@example.org'', au_name = None,
         au_image = None, au_emailVerified = None\<rparr>)))
      = [\<lparr>u_id = ''cuid1'', u_email = ''eve@example.org'', u_name = None, u_image = None,
          u_emailVerified = None, u_onboardingCategories = []\<rparr>]
   \<and> signIn (env_unset\<lparr>DISABLE_SIGNUP := True\<rparr>) world_offline prisma_empty None
        (Some \<lparr>provider = ''github'', access_token = None\<rparr>)
        \<lparr>su_id = ''x'', su_email = Some ''eve@example.org'', su_createdAt = None\<rparr>
      = Some (Inl (Error ''sign-up-disabled''), [])"
proof -
  have lookup: "getNewUserInvitations prisma_empty ''eve@example.org'' = ([], [])"
    by (simp add: getNewUserInvitations_def prisma_empty_def)
  have created:
    "createUser (env_unset\<lparr>DISABLE_SIGNUP := True\<rparr>) deps_fixed prisma_empty
        \<lparr>au_id = None, au_email = Some ''eve@example.org'', au_name = None,
         au_image = None, au_emailVerified = None\<rparr>
     = (Inr \<lparr>u_id = ''cuid1'', u_email = ''eve@example.org'', u_name = None, u_image = None,
             u_emailVerified = None, u_onboardingCategories = []\<rparr>,
        prisma_empty
          \<lparr>p_users := [\<lparr>u_id = ''cuid1'', u_email = ''eve@example.org'', u_name = None,
                        u_image = None, u_emailVerified = None, u_onboardingCategories = []\<rparr>],
           p_apiTokens := [\<lparr>t_name = ''Default'', t_token = replicate 24 CHR ''t'',
                            t_ownerId = ''cuid1''\<rparr>],
           p_workspaces := [\<lparr>w_id = ''ws1'', w_name = ''My workspace'', w_plan = ''FREE''\<rparr>],
           p_members := [\<lparr>m_userId = ''cuid1'', m_workspaceId = ''ws1'', m_role = ADMIN\<rparr>]\<rparr>,
        \<lparr>fx_events = [Workspace_created ''ws1'' ''cuid1'', User_created ''cuid1''],
         fx_webhook_posts = [], fx_console_errors = []\<rparr>)"
    by (simp add: createUser_def user_create_def lookup truthy_def Let_def)
       (simp add: env_unset_def deps_fixed_def prisma_empty_def)
  have thrown:
    "signIn (env_unset\<lparr>DISABLE_SIGNUP := True\<rparr>) world_offline prisma_empty None
        (Some \<lparr>provider = ''github'', access_token = None\<rparr>)
        \<lparr>su_id = ''x'', su_email = Some ''eve@example.org'', su_createdAt = None\<rparr>
      = Some (Inl (Error ''sign-up-disabled''), [])"
    by (simp add: signIn_def disposableEmailCheck_def signupDisabledCheck_def lookup
        isDefined_def truthy_def env_unset_def)
  show ?thesis
    using lookup created thrown by (simp add: env_unset_def prisma_empty_def)
qed

section \<open>Facts about the profile-update endpoint\<close>

text \<open>The body the handler works on: the object itself, or the parsed string.\<close>

lemma users_handler_patch:
  assumes "rq_method req = Some ''PATCH''"
    and "rq_body req = Body_object data \<or> (\<exists>s. rq_body req = Body_string s \<and> parse s = Some data)"
    and "users (rq_userId req) = Some row"
  shows "users_handler (Some uid) parse users req =
           (Inr (Response_send_typebots
                   (\<lambda>k. if k = ''displayedInAppNotifications'' \<or> k = ''groupTitlesAutoGeneration''
                        then (if data k = JNull \<or> data k = JUndefined then row k else data k)
                        else (if data k = JUndefined then row k else data k))),
            users(rq_userId req \<mapsto>
                   (\<lambda>k. if k = ''displayedInAppNotifications'' \<or> k = ''groupTitlesAutoGeneration''
                        then (if data k = JNull \<or> data k = JUndefined then row k else data k)
                        else (if data k = JUndefined then row k else data k))),
            if truthy_json (data ''onboardingCategories'') \<or> truthy_json (data ''referral'') \<or>
               truthy_json (data ''company'') \<or> truthy_json (data ''name'')
            then [User_updated uid] else [])"
proof -
  define data' where
    "data' = data(''onboardingCategories'' := data ''onboardingCategories'',
                  ''displayedInAppNotifications'' :=
                    nullish_to_undefined (data ''displayedInAppNotifications''),
                  ''groupTitlesAutoGeneration'' :=
                    nullish_to_undefined (data ''groupTitlesAutoGeneration''))"
  define row' where "row' = (\<lambda>k. if data' k = JUndefined then row k else data' k)"
  have row: "row' = (\<lambda>k. if k = ''displayedInAppNotifications'' \<or> k = ''groupTitlesAutoGeneration''
                    then (if data k = JNull \<or> data k = JUndefined then row k else data k)
                    else (if data k = JUndefined then row k else data k))"
    by (rule ext) (simp add: row'_def data'_def nullish_to_undefined_def)
  have parsed: "(case rq_body req of Body_string s \<Rightarrow> parse s | Body_object obj \<Rightarrow> Some obj)
                = Some data"
    using assms(2) by auto
  have "user_update users (rq_userId req) data' = Inr (row', users(rq_userId req \<mapsto> row'))"
    using assms(3) by (simp add: user_update_def Let_def row'_def)
  then have "users_handler (Some uid) parse users req =
           (Inr (Response_send_typebots row'), users(rq_userId req \<mapsto> row'),
            if truthy_json (data ''onboardingCategories'') \<or> truthy_json (data ''referral'') \<or>
               truthy_json (data ''company'') \<or> truthy_json (data ''name'')
            then [User_updated uid] else [])"
    using assms(1) parsed unfolding data'_def by (simp add: users_handler_def)
  then show ?thesis
    unfolding row .
qed

subsection \<open>The "User updated" event\<close>

text \<open>
  Claim C6, as stated, fails in both directions. A \<open>PATCH\<close> whose body sets \<open>company\<close> to the
  empty string changes the stored company (from \<open>"Acme"\<close> to \<open>""\<close>) and tracks no event; a
  \<open>PATCH\<close> whose body repeats the stored name changes none of the four fields and tracks the
  event.
\<close>

theorem user_updated_event_not_on_change:
  "field_of [''u1'' \<mapsto> object_of [(''company'', JString ''Acme'')]] ''u1'' ''company''
     = JString ''Acme''
   \<and> field_of
        (fst (snd (users_handler (Some ''u1'') (\<lambda>s. None)
           [''u1'' \<mapsto> object_of [(''company'', JString ''Acme'')]]
           \<lparr>rq_method = Some ''PATCH'', rq_userId = ''u1'',
            rq_body = Body_object (object_of [(''company'', JString '''')])\<rparr>)))
        ''u1'' ''company''
     = JString ''''
   \<and> snd (snd (users_handler (Some ''u1'') (\<lambda>s. None)
        [''u1'' \<mapsto> object_of [(''company'', JString ''Acme'')]]
        \<lparr>rq_method = Some ''PATCH'', rq_userId = ''u1'',
         rq_body = Body_object (object_of [(''company'', JString '''')])\<rparr>))
     = []
   \<and> fst (snd (users_handler (Some ''u1'') (\<lambda>s. None)
        [''u1'' \<mapsto> object_of [(''name'', JString ''Ann'')]]
        \<lparr>rq_method = Some ''PATCH'', rq_userId = ''u1'',
         rq_body = Body_object (object_of [(''name'', JString ''Ann'')])\<rparr>))
     = [''u1'' \<mapsto> object_of [(''name'', JString ''Ann'')]]
   \<and> snd (snd (users_handler (Some ''u1'') (\<lambda>s. None)
        [''u1'' \<mapsto> object_of [(''name'', JString ''Ann'')]]
        \<lparr>rq_method = Some ''PATCH'', rq_userId = ''u1'',
         rq_body = Body_object (object_of [(''name'', JString ''Ann'')])\<rparr>))
     = [User_updated ''u1'']"
proof -
  let ?acme = "object_of [(''company'', JString ''Acme'')]"
  let ?blank = "object_of [(''company'', JString '''')]"
  let ?ann = "object_of [(''name'', JString ''Ann'')]"
  let ?req1 = "\<lparr>rq_method = Some ''PATCH'', rq_userId = ''u1'', rq_body = Body_object ?blank\<rparr>"
  let ?req2 = "\<lparr>rq_method = Some ''PATCH'', rq_userId = ''u1'', rq_body = Body_object ?ann\<rparr>"
  note run1 = users_handler_patch
    [where req = ?req1 and data = ?blank and users = "[''u1'' \<mapsto> ?acme]" and row = ?acme
       and uid = "''u1''" and parse = "\<lambda>s. None"]
  note run2 = users_handler_patch
    [where req = ?req2 and data = ?ann and users = "[''u1'' \<mapsto> ?ann]" and row = ?ann
       and uid = "''u1''" and parse = "\<lambda>s. None"]
  have same: "(\<lambda>k. if k = ''displayedInAppNotifications'' \<or> k = ''groupTitlesAutoGeneration''
                    then (if ?ann k = JNull \<or> ?ann k = JUndefined then ?ann k else ?ann k)
                    else (if ?ann k = JUndefined then ?ann k else ?ann k)) = ?ann"
    by (rule ext) simp
  have r1: "field_of (fst (snd (users_handler (Some ''u1'') (\<lambda>s. None) [''u1'' \<mapsto> ?acme] ?req1)))
              ''u1'' ''company'' = JString ''''"
    "snd (snd (users_handler (Some ''u1'') (\<lambda>s. None) [''u1'' \<mapsto> ?acme] ?req1)) = []"
    using run1 by (simp_all add: field_of_def object_of_def)
  have r2: "fst (snd (users_handler (Some ''u1'') (\<lambda>s. None) [''u1'' \<mapsto> ?ann] ?req2))
              = [''u1'' \<mapsto> ?ann]"
    "snd (snd (users_handler (Some ''u1'') (\<lambda>s. None) [''u1'' \<mapsto> ?ann] ?req2))
              = [User_updated ''u1'']"
    using run2 unfolding same by (simp_all add: object_of_def)
  have r0: "field_of [''u1'' \<mapsto> ?acme] ''u1'' ''company'' = JString ''Acme''"
    by (simp add: field_of_def object_of_def)
  from r0 r1 r2 show ?thesis
    by blast
qed

text \<open>
  Claim C6, amended: an authenticated \<open>PATCH\<close> whose body is read and whose user row exists
  tracks exactly one "User updated" event when the body gives a truthy value to at least
  one of \<open>onboardingCategories\<close>, \<open>referral\<close>, \<open>company\<close> and \<open>name\<close>, and none otherwise; the
  stored values are not compared. So a body with only \<open>image\<close> tracks none, and a body with
  a non-empty \<open>company\<close> tracks exactly one.
\<close>

theorem user_updated_event_on_truthy_field:
  assumes "rq_method req = Some ''PATCH''"
    and "rq_body req = Body_object data \<or> (\<exists>s. rq_body req = Body_string s \<and> parse s = Some data)"
    and "users (rq_userId req) = Some row"
  shows "snd (snd (users_handler (Some uid) parse users req))
           = (if truthy_json (data ''onboardingCategories'') \<or> truthy_json (data ''referral'') \<or>
                 truthy_json (data ''company'') \<or> truthy_json (data ''name'')
              then [User_updated uid] else [])
         \<and> ((\<forall>k. k \<noteq> ''image'' \<longrightarrow> data k = JUndefined)
              \<longrightarrow> snd (snd (users_handler (Some uid) parse users req)) = [])
         \<and> ((\<exists>c. data ''company'' = JString c \<and> c \<noteq> [])
              \<longrightarrow> snd (snd (users_handler (Some uid) parse users req)) = [User_updated uid])"
proof -
  have events: "snd (snd (users_handler (Some uid) parse users req))
           = (if truthy_json (data ''onboardingCategories'') \<or> truthy_json (data ''referral'') \<or>
                 truthy_json (data ''company'') \<or> truthy_json (data ''name'')
              then [User_updated uid] else [])"
    using assms
      users_handler_patch
        [where req = req and data = data and parse = parse and users = users and row = row
           and uid = uid]
    by simp
  have image_only: "snd (snd (users_handler (Some uid) parse users req)) = []"
    if "\<forall>k. k \<noteq> ''image'' \<longrightarrow> data k = JUndefined"
  proof -
    from that have "data ''onboardingCategories'' = JUndefined" "data ''referral'' = JUndefined"
      "data ''company'' = JUndefined" "data ''name'' = JUndefined"
      by simp_all
    then show ?thesis
      by (simp add: events)
  qed
  have company: "snd (snd (users_handler (Some uid) parse users req)) = [User_updated uid]"
    if "\<exists>c. data ''company'' = JString c \<and> c \<noteq> []"
    using that by (auto simp: events)
  from events image_only company show ?thesis
    by blast
qed

theorem user_updated_event_on_truthy_field_witness:
  "snd (snd (users_handler (Some ''u1'') (\<lambda>s. None)
        [''u1'' \<mapsto> object_of [(''company'', JString ''Acme'')]]
        \<lparr>rq_method = Some ''PATCH'', rq_userId = ''u1'',
         rq_body = Body_object (object_of [(''image'', JString ''me.png'')])\<rparr>))
     = []
   \<and> snd (snd (users_handler (Some ''u1'') (\<lambda>s. None)
        [''u1'' \<mapsto> object_of [(''company'', JString ''Acme'')]]
        \<lparr>rq_method = Some ''PATCH'', rq_userId = ''u1'',
         rq_body = Body_object (object_of [(''company'', JString ''Initech'')])\<rparr>))
     = [User_updated ''u1'']"
proof -
  let ?users = "[''u1'' \<mapsto> object_of [(''company'', JString ''Acme'')]]"
  let ?image = "object_of [(''image'', JString ''me.png'')]"
  let ?company = "object_of [(''company'', JString ''Initech'')]"
  let ?req1 = "\<lparr>rq_method = Some ''PATCH'', rq_userId = ''u1'', rq_body = Body_object ?image\<rparr>"
  let ?req2 = "\<lparr>rq_method = Some ''PATCH'', rq_userId = ''u1'', rq_body = Body_object ?company\<rparr>"
  have patch: "rq_method ?req1 = Some ''PATCH''" "rq_method ?req2 = Some ''PATCH''"
    by simp_all
  have body1: "rq_body ?req1 = Body_object ?image
               \<or> (\<exists>s. rq_body ?req1 = Body_string s \<and> (\<lambda>s. None) s = Some ?image)"
    and body2: "rq_body ?req2 = Body_object ?company
               \<or> (\<exists>s. rq_body ?req2 = Body_string s \<and> (\<lambda>s. None) s = Some ?company)"
    by simp_all
  have row: "?users (rq_userId ?req1) = Some (object_of [(''company'', JString ''Acme'')])"
    "?users (rq_userId ?req2) = Some (object_of [(''company'', JString ''Acme'')])"
    by simp_all
  have only_image: "\<forall>k. k \<noteq> ''image'' \<longrightarrow> ?image k = JUndefined"
    by (simp add: object_of_def)
  have has_company: "\<exists>c. ?company ''company'' = JString c \<and> c \<noteq> []"
    by (simp add: object_of_def)
  note first = user_updated_event_on_truthy_field
    [where req = ?req1 and data = ?image and parse = "\<lambda>s. None" and users = ?users
       and row = "object_of [(''company'', JString ''Acme'')]" and uid = "''u1''"]
  note second = user_updated_event_on_truthy_field
    [where req = ?req2 and data = ?company and parse = "\<lambda>s. None" and users = ?users
       and row = "object_of [(''company'', JString ''Acme'')]" and uid = "''u1''"]
  from first patch(1) body1 row(1) only_image
  have "snd (snd (users_handler (Some ''u1'') (\<lambda>s. None) ?users ?req1)) = []"
    by blast
  moreover
  from second patch(2) body2 row(2) has_company
  have "snd (snd (users_handler (Some ''u1'') (\<lambda>s. None) ?users ?req2)) = [User_updated ''u1'']"
    by blast
  ultimately show ?thesis
    by blast
qed

subsection \<open>Status codes\<close>

text \<open>
  Claim C8, as stated, fails on a request that is both unauthenticated and not a \<open>PATCH\<close>:
  the authentication test comes first, so an unauthenticated \<open>GET\<close> is answered 401 and
  not 405.
\<close>

theorem unauthenticated_get_is_401:
  "rq_method \<lparr>rq_method = Some ''GET'', rq_userId = ''u1'',
              rq_body = Body_object (object_of [])\<rparr> \<noteq> Some ''PATCH''
   \<and> users_handler None (\<lambda>s. None) Map.empty
        \<lparr>rq_method = Some ''GET'', rq_userId = ''u1'', rq_body = Body_object (object_of [])\<rparr>
      = (Inr (Response_status 401), Map.empty, [])
   \<and> fst (users_handler None (\<lambda>s. None) Map.empty
        \<lparr>rq_method = Some ''GET'', rq_userId = ''u1'', rq_body = Body_object (object_of [])\<rparr>)
      \<noteq> Inr (Response_status 405)"
  by (simp add: users_handler_def notAuthenticated_def)

text \<open>
  Claim C8, amended: a request whose caller is not authenticated is answered 401, whatever
  its method; a request whose caller is authenticated and whose method is not \<open>PATCH\<close> is
  answered 405. Neither touches the user table or tracks an event.
\<close>

theorem users_handler_401_then_405:
  "users_handler None parse users req = (Inr (Response_status 401), users, [])
   \<and> (rq_method req \<noteq> Some ''PATCH'' \<longrightarrow>
        users_handler (Some uid) parse users req = (Inr (Response_status 405), users, []))"
  by (simp add: users_handler_def notAuthenticated_def methodNotAllowed_def)

theorem users_handler_401_then_405_witness:
  "rq_method \<lparr>rq_method = Some ''GET'', rq_userId = ''u1'',
              rq_body = Body_object (object_of [])\<rparr> \<noteq> Some ''PATCH''
   \<and> users_handler (Some ''u1'') (\<lambda>s. None) Map.empty
        \<lparr>rq_method = Some ''GET'', rq_userId = ''u1'', rq_body = Body_object (object_of [])\<rparr>
      = (Inr (Response_status 405), Map.empty, [])"
proof -
  let ?req = "\<lparr>rq_method = Some ''GET'', rq_userId = ''u1'',
                rq_body = Body_object (object_of [])\<rparr>"
  have get: "rq_method ?req \<noteq> Some ''PATCH''"
    by simp
  with users_handler_401_then_405
    [where req = ?req and parse = "\<lambda>s. None" and users = Map.empty and uid = "''u1''"]
  show ?thesis
    by blast
qed

subsection \<open>What a PATCH writes\<close>

text \<open>
  Claim C10. In an authenticated \<open>PATCH\<close> whose body is read and whose user row exists, the
  row is replaced by the updated row, which the response carries. A body that sets
  \<open>displayedInAppNotifications\<close> or \<open>groupTitlesAutoGeneration\<close> to \<open>null\<close> leaves that stored
  field as it was; every other value the body supplies is stored as given, be it \<open>null\<close> for
  any other key or a value that is not \<open>null\<close> for any key, the two preference keys
  included; every key the body does not supply keeps its stored value. So the updated row
  is known at every key.
\<close>

theorem patch_merges_body_except_null_preferences:
  assumes "rq_method req = Some ''PATCH''"
    and "rq_body req = Body_object data \<or> (\<exists>s. rq_body req = Body_string s \<and> parse s = Some data)"
    and "users (rq_userId req) = Some row"
  shows "\<exists>row' events.
           users_handler (Some uid) parse users req
             = (Inr (Response_send_typebots row'), users(rq_userId req \<mapsto> row'), events)
           \<and> (data ''displayedInAppNotifications'' = JNull \<longrightarrow>
                 row' ''displayedInAppNotifications'' = row ''displayedInAppNotifications'')
           \<and> (data ''groupTitlesAutoGeneration'' = JNull \<longrightarrow>
                 row' ''groupTitlesAutoGeneration'' = row ''groupTitlesAutoGeneration'')
           \<and> (\<forall>k. k \<noteq> ''displayedInAppNotifications'' \<and> k \<noteq> ''groupTitlesAutoGeneration''
                    \<and> data k \<noteq> JUndefined \<longrightarrow> row' k = data k)
           \<and> (\<forall>k. data k \<noteq> JUndefined \<and> data k \<noteq> JNull \<longrightarrow> row' k = data k)
           \<and> (\<forall>k. data k = JUndefined \<longrightarrow> row' k = row k)
           \<and> (\<forall>k. row' k =
                  (if data k = JUndefined
                      \<or> (data k = JNull \<and> (k = ''displayedInAppNotifications''
                                             \<or> k = ''groupTitlesAutoGeneration''))
                   then row k else data k))"
proof -
  let ?row' = "\<lambda>k. if k = ''displayedInAppNotifications'' \<or> k = ''groupTitlesAutoGeneration''
                    then (if data k = JNull \<or> data k = JUndefined then row k else data k)
                    else (if data k = JUndefined then row k else data k)"
  let ?events = "if truthy_json (data ''onboardingCategories'') \<or> truthy_json (data ''referral'') \<or>
                    truthy_json (data ''company'') \<or> truthy_json (data ''name'')
                 then [User_updated uid] else []"
  have run: "users_handler (Some uid) parse users req
               = (Inr (Response_send_typebots ?row'), users(rq_userId req \<mapsto> ?row'), ?events)"
    using assms
      users_handler_patch
        [where req = req and data = data and parse = parse and users = users and row = row
           and uid = uid]
    by blast
  have null1: "data ''displayedInAppNotifications'' = JNull \<longrightarrow>
                 ?row' ''displayedInAppNotifications'' = row ''displayedInAppNotifications''"
    and null2: "data ''groupTitlesAutoGeneration'' = JNull \<longrightarrow>
                 ?row' ''groupTitlesAutoGeneration'' = row ''groupTitlesAutoGeneration''"
    and given: "\<forall>k. k \<noteq> ''displayedInAppNotifications'' \<and> k \<noteq> ''groupTitlesAutoGeneration''
                    \<and> data k \<noteq> JUndefined \<longrightarrow> ?row' k = data k"
    and non_null: "\<forall>k. data k \<noteq> JUndefined \<and> data k \<noteq> JNull \<longrightarrow> ?row' k = data k"
    and kept: "\<forall>k. data k = JUndefined \<longrightarrow> ?row' k = row k"
    and every: "\<forall>k. ?row' k =
                  (if data k = JUndefined
                      \<or> (data k = JNull \<and> (k = ''displayedInAppNotifications''
                                             \<or> k = ''groupTitlesAutoGeneration''))
                   then row k else data k)"
    by simp_all
  show ?thesis
    by (rule exI [of _ ?row'], rule exI [of _ ?events])
       (intro conjI run null1 null2 given non_null kept every)
qed

theorem patch_merges_body_except_null_preferences_witness:
  "field_of
     (fst (snd (users_handler (Some ''u1'') (\<lambda>s. None)
        [''u1'' \<mapsto> object_of [(''displayedInAppNotifications'', JObject [(''v3'', JBool True)]),
                               (''groupTitlesAutoGeneration'', JObject [(''isEnabled'', JBool True)]),
                               (''image'', JString ''old.png''),
                               (''company'', JString ''Acme'')]]
        \<lparr>rq_method = Some ''PATCH'', rq_userId = ''u1'',
         rq_body = Body_object (object_of [(''displayedInAppNotifications'', JNull),
                                           (''groupTitlesAutoGeneration'',
                                              JObject [(''isEnabled'', JBool False)]),
                                           (''image'', JString ''new.png'')])\<rparr>)))
     ''u1'' ''displayedInAppNotifications''
     = JObject [(''v3'', JBool True)]
   \<and> field_of
     (fst (snd (users_handler (Some ''u1'') (\<lambda>s. None)
        [''u1'' \<mapsto> object_of [(''displayedInAppNotifications'', JObject [(''v3'', JBool True)]),
                               (''groupTitlesAutoGeneration'', JObject [(''isEnabled'', JBool True)]),
                               (''image'', JString ''old.png''),
                               (''company'', JString ''Acme'')]]
        \<lparr>rq_method = Some ''PATCH'', rq_userId = ''u1'',
         rq_body = Body_object (object_of [(''displayedInAppNotifications'', JNull),
                                           (''groupTitlesAutoGeneration'',
                                              JObject [(''isEnabled'', JBool False)]),
                                           (''image'', JString ''new.png'')])\<rparr>)))
     ''u1'' ''groupTitlesAutoGeneration''
     = JObject [(''isEnabled'', JBool False)]
   \<and> field_of
     (fst (snd (users_handler (Some ''u1'') (\<lambda>s. None)
        [''u1'' \<mapsto> object_of [(''displayedInAppNotifications'', JObject [(''v3'', JBool True)]),
                               (''groupTitlesAutoGeneration'', JObject [(''isEnabled'', JBool True)]),
                               (''image'', JString ''old.png''),
                               (''company'', JString ''Acme'')]]
        \<lparr>rq_method = Some ''PATCH'', rq_userId = ''u1'',
         rq_body = Body_object (object_of [(''displayedInAppNotifications'', JNull),
                                           (''groupTitlesAutoGeneration'',
                                              JObject [(''isEnabled'', JBool False)]),
                                           (''image'', JString ''new.png'')])\<rparr>)))
     ''u1'' ''image''
     = JString ''new.png''
   \<and> field_of
     (fst (snd (users_handler (Some ''u1'') (\<lambda>s. None)
        [''u1'' \<mapsto> object_of [(''displayedInAppNotifications'', JObject [(''v3'', JBool True)]),
                               (''groupTitlesAutoGeneration'', JObject [(''isEnabled'', JBool True)]),
                               (''image'', JString ''old.png''),
                               (''company'', JString ''Acme'')]]
        \<lparr>rq_method = Some ''PATCH'', rq_userId = ''u1'',
         rq_body = Body_object (object_of [(''displayedInAppNotifications'', JNull),
                                           (''groupTitlesAutoGeneration'',
                                              JObject [(''isEnabled'', JBool False)]),
                                           (''image'', JString ''new.png'')])\<rparr>)))
     ''u1'' ''company''
     = JString ''Acme''"
proof -
  let ?row = "object_of [(''displayedInAppNotifications'', JObject [(''v3'', JBool True)]),
                         (''groupTitlesAutoGeneration'', JObject [(''isEnabled'', JBool True)]),
                         (''image'', JString ''old.png''),
                         (''company'', JString ''Acme'')]"
  let ?data = "object_of [(''displayedInAppNotifications'', JNull),
                          (''groupTitlesAutoGeneration'', JObject [(''isEnabled'', JBool False)]),
                          (''image'', JString ''new.png'')]"
  let ?req = "\<lparr>rq_method = Some ''PATCH'', rq_userId = ''u1'', rq_body = Body_object ?data\<rparr>"
  let ?run = "users_handler (Some ''u1'') (\<lambda>s. None) [''u1'' \<mapsto> ?row] ?req"
  have patch: "rq_method ?req = Some ''PATCH''"
    by simp
  have body: "rq_body ?req = Body_object ?data
              \<or> (\<exists>s. rq_body ?req = Body_string s \<and> (\<lambda>s. None) s = Some ?data)"
    by simp
  have stored: "[''u1'' \<mapsto> ?row] (rq_userId ?req) = Some ?row"
    by simp
  note merged = patch_merges_body_except_null_preferences
      [where req = ?req and data = ?data and parse = "\<lambda>s. None"
         and users = "[''u1'' \<mapsto> ?row]" and row = ?row and uid = "''u1''"]
  from merged [OF patch body stored]
  obtain row' events where
    run: "?run = (Inr (Response_send_typebots row'), [''u1'' \<mapsto> ?row](rq_userId ?req \<mapsto> row'), events)"
    and null: "?data ''displayedInAppNotifications'' = JNull \<longrightarrow>
                 row' ''displayedInAppNotifications'' = ?row ''displayedInAppNotifications''"
    and other: "?data ''groupTitlesAutoGeneration'' = JNull \<longrightarrow>
                 row' ''groupTitlesAutoGeneration'' = ?row ''groupTitlesAutoGeneration''"
    and given: "\<forall>k. k \<noteq> ''displayedInAppNotifications'' \<and> k \<noteq> ''groupTitlesAutoGeneration''
                    \<and> ?data k \<noteq> JUndefined \<longrightarrow> row' k = ?data k"
    and non_null: "\<forall>k. ?data k \<noteq> JUndefined \<and> ?data k \<noteq> JNull \<longrightarrow> row' k = ?data k"
    and kept: "\<forall>k. ?data k = JUndefined \<longrightarrow> row' k = ?row k"
    and every: "\<forall>k. row' k =
                  (if ?data k = JUndefined
                      \<or> (?data k = JNull \<and> (k = ''displayedInAppNotifications''
                                              \<or> k = ''groupTitlesAutoGeneration''))
                   then ?row k else ?data k)"
    by (elim exE conjE) (rule that; assumption)
  have "row' ''displayedInAppNotifications'' = JObject [(''v3'', JBool True)]"
    using null by (simp add: object_of_def)
  moreover have "row' ''groupTitlesAutoGeneration'' = JObject [(''isEnabled'', JBool False)]"
    using non_null [rule_format, of "''groupTitlesAutoGeneration''"] by (simp add: object_of_def)
  moreover have "row' ''image'' = JString ''new.png''"
    using given [rule_format, of "''image''"] by (simp add: object_of_def)
  moreover have "row' ''company'' = JString ''Acme''"
    using kept [rule_format, of "''company''"] by (simp add: object_of_def)
  ultimately show ?thesis
    by (simp add: run field_of_def)
qed

end
